theory Spec2Isabelle
  imports Main
begin

section \<open>Data model\<close>

text \<open>
  The loader (\<^verbatim>\<open>src/index.js\<close>) works on three kinds of data: the single-file-component
  descriptor produced by the SFC parser, the node trees produced by the HTML parser, and
  the alias table handed over by the bundler.

  A descriptor block carries an attribute object. The SFC parser stores a valueless
  attribute (\<^verbatim>\<open><template extendable>\<close>) as the JavaScript value \<^verbatim>\<open>true\<close>, which is what
  the truthiness test of \<^verbatim>\<open>attrs[options.EXTENDABLE_ATTR]\<close> relies on; an attribute
  with a value is a string. Attribute objects are association lists in insertion order,
  the order \<^verbatim>\<open>Object.entries\<close> enumerates.
\<close>

datatype attrval = Str string | Flag

record block =
  type :: string
  attrs :: "(string \<times> attrval) list"
  content :: string

record descriptor =
  template :: "block option"
  script :: "block option"
  styles :: "block list"
  customBlocks :: "block list"

text \<open>
  A node of the HTML parser is an element (\<^verbatim>\<open>type\<close> one of \<^verbatim>\<open>tag\<close>, \<^verbatim>\<open>script\<close>,
  \<^verbatim>\<open>style\<close>; \<^verbatim>\<open>name\<close>; \<^verbatim>\<open>attribs\<close>; \<^verbatim>\<open>children\<close>) or a data node (text, comment) that
  has neither a name nor children.
\<close>

datatype node =
    Elem string string "(string \<times> string) list" "node list"
  | Data string string

record options =
  EXT_POINT_TAG :: string
  EXTENSIONS_TAG :: string
  EXTENSION_TAG :: string
  EXT_POINT_NAME_ATTR :: string
  EXT_POINT_REF_ATTR :: string
  EXTENDABLE_ATTR :: string
  EXTENDS_ATTR :: string

definition defaultOptions :: options where
  "defaultOptions = \<lparr>
     EXT_POINT_TAG = ''extension-point'',
     EXTENSIONS_TAG = ''extensions'',
     EXTENSION_TAG = ''extension'',
     EXT_POINT_NAME_ATTR = ''name'',
     EXT_POINT_REF_ATTR = ''point'',
     EXTENDABLE_ATTR = ''extendable'',
     EXTENDS_ATTR = ''extends'' \<rparr>"

text \<open>
  The functions the loader imports from other packages and from the runtime are
  parameters of the model: the SFC parser (\<^verbatim>\<open>parse\<close> of component-compiler-utils, wrapped
  by \<^verbatim>\<open>toDescriptor\<close>), \<^verbatim>\<open>htmlparser.parseDOM\<close>, \<^verbatim>\<open>DomUtils.getOuterHTML\<close>,
  \<^verbatim>\<open>fs.readFile\<close>, \<^verbatim>\<open>path.join\<close>, \<^verbatim>\<open>path.dirname\<close> and the two uses of \<^verbatim>\<open>RegExp\<close>
  (\<^verbatim>\<open>new RegExp(k).test(s)\<close> and \<^verbatim>\<open>s.replace(new RegExp(k), v)\<close>). The type \<open>'e\<close> is
  the type of the error values these functions throw or pass to their callback.
\<close>

record 'e libs =
  toDescriptor :: "string \<Rightarrow> 'e + descriptor"
  parseDOM :: "string \<Rightarrow> node list"
  getOuterHTML :: "node list \<Rightarrow> string"
  readFile :: "string \<Rightarrow> 'e + string"
  pathJoin :: "string \<Rightarrow> string \<Rightarrow> string"
  pathDirname :: "string \<Rightarrow> string"
  regexTest :: "string \<Rightarrow> string \<Rightarrow> 'e + bool"
  regexReplace :: "string \<Rightarrow> string \<Rightarrow> string \<Rightarrow> string"

text \<open>
  An error is either a value thrown by one of these functions or a \<^verbatim>\<open>TypeError\<close> raised
  by the loader's own code (a property read on \<^verbatim>\<open>undefined\<close> or \<^verbatim>\<open>null\<close>, a call of a
  method a value does not have). A promise is pending, rejected or resolved; a promise
  that is never settled stays pending.
\<close>

datatype 'e error = Thrown 'e | TypeError string

datatype ('e, 'a) promise = Pending | Rejected "'e error" | Resolved 'a

record resolved =
  source :: string
  ancestorsPaths :: "string list"

section \<open>Strings and attribute objects\<close>

text \<open>\<^verbatim>\<open>s.split(/[\/\\]/)\<close>: the pieces between separators; never an empty array.\<close>

definition isSep :: "char \<Rightarrow> bool" where
  "isSep c = (c = CHR ''/'' \<or> c = CHR 0x5C)"

fun splitPath :: "string \<Rightarrow> string list" where
  "splitPath [] = [[]]"
| "splitPath (c # cs) =
     (if isSep c then [] # splitPath cs
      else (case splitPath cs of
              [] \<Rightarrow> [[c]]
            | w # ws \<Rightarrow> (c # w) # ws))"

text \<open>\<^verbatim>\<open>parts.join(sep)\<close> on an array of strings.\<close>

fun joinWith :: "string \<Rightarrow> string list \<Rightarrow> string" where
  "joinWith sep [] = []"
| "joinWith sep [x] = x"
| "joinWith sep (x # y # ys) = x @ sep @ joinWith sep (y # ys)"

text \<open>Truthiness of \<^verbatim>\<open>obj[key]\<close>: \<^verbatim>\<open>undefined\<close> and the empty string are falsy.\<close>

fun truthyAttr :: "attrval option \<Rightarrow> bool" where
  "truthyAttr None = False"
| "truthyAttr (Some (Str s)) = (s \<noteq> [])"
| "truthyAttr (Some Flag) = True"

fun truthyStr :: "string option \<Rightarrow> bool" where
  "truthyStr None = False"
| "truthyStr (Some s) = (s \<noteq> [])"

text \<open>\<^verbatim>\<open>delete obj[key]\<close>.\<close>

definition deleteKey :: "string \<Rightarrow> (string \<times> 'v) list \<Rightarrow> (string \<times> 'v) list" where
  "deleteKey k kvs = filter (\<lambda>kv. fst kv \<noteq> k) kvs"

text \<open>A value interpolated into a template literal or concatenated to a string.\<close>

fun showAttrval :: "attrval \<Rightarrow> string" where
  "showAttrval (Str s) = s"
| "showAttrval Flag = ''true''"

fun jsString :: "string option \<Rightarrow> string" where
  "jsString None = ''undefined''"
| "jsString (Some s) = s"

section \<open>Path resolution\<close>

text \<open>
  Lines 79 to 103 of \<^verbatim>\<open>resolveComponent\<close>. The alias table is an association list in
  the order \<^verbatim>\<open>Object.keys\<close> enumerates, with distinct keys and string values (the
  bundler's \<^verbatim>\<open>resolve.alias\<close> is taken to be such an object); the sentinel \<^verbatim>\<open>__fromJest\<close>
  counts as present when its value is truthy.

  In the pattern mode \<^verbatim>\<open>Object.keys(aliases).find\<close> compiles each key as a regular
  expression and tests it against the whole reference, stopping at the first key that
  matches; compiling a key can throw.
\<close>

fun findRegexAlias ::
  "'e libs \<Rightarrow> string \<Rightarrow> (string \<times> string) list \<Rightarrow> 'e + (string \<times> string) option" where
  "findRegexAlias L baseRelPath [] = Inr None"
| "findRegexAlias L baseRelPath (kv # kvs) =
     (case regexTest L (fst kv) baseRelPath of
        Inl e \<Rightarrow> Inl e
      | Inr True \<Rightarrow> Inr (Some kv)
      | Inr False \<Rightarrow> findRegexAlias L baseRelPath kvs)"

text \<open>
  In the plain mode the key must equal the first segment of the reference. The result
  of \<^verbatim>\<open>find\<close> is the entry found, so that \<^verbatim>\<open>aliases[matchingAlias]\<close> is its second
  component.
\<close>

definition findPlainAlias :: "string list \<Rightarrow> (string \<times> string) list \<Rightarrow> (string \<times> string) option" where
  "findPlainAlias baseRelPathParts aliases =
     (case baseRelPathParts of
        [] \<Rightarrow> None
      | p0 # rest \<Rightarrow> find (\<lambda>kv. p0 = fst kv) aliases)"

definition fromJest :: "(string \<times> string) list \<Rightarrow> bool" where
  "fromJest aliases = truthyStr (map_of aliases ''__fromJest'')"

text \<open>
  \<^verbatim>\<open>if (matchingAlias)\<close> tests the key found for truthiness: no key and the empty key
  both take the \<^verbatim>\<open>else\<close> branch, which joins the reference to the context path.
\<close>

definition resolveBasePath ::
  "'e libs \<Rightarrow> string \<Rightarrow> string \<Rightarrow> (string \<times> string) list \<Rightarrow> 'e + string" where
  "resolveBasePath L baseRelPath currPath aliases =
     (let baseRelPathParts = splitPath baseRelPath in
      case (if fromJest aliases then findRegexAlias L baseRelPath aliases
            else Inr (findPlainAlias baseRelPathParts aliases)) of
        Inl e \<Rightarrow> Inl e
      | Inr None \<Rightarrow> Inr (pathJoin L currPath baseRelPath)
      | Inr (Some (matchingAlias, target)) \<Rightarrow>
          if matchingAlias = [] then Inr (pathJoin L currPath baseRelPath)
          else if fromJest aliases then Inr (regexReplace L matchingAlias baseRelPath target)
          else Inr (pathJoin L target (joinWith ''/'' (tl baseRelPathParts))))"

section \<open>Node trees\<close>

text \<open>\<^verbatim>\<open>node.name === tag\<close>; a data node has no name.\<close>

fun isNamed :: "string \<Rightarrow> node \<Rightarrow> bool" where
  "isNamed tag (Elem t n a cs) = (n = tag)"
| "isNamed tag (Data t d) = False"

text \<open>\<^verbatim>\<open>node.type === 'tag' && node.name === tag\<close>, the test of \<^verbatim>\<open>findDomElementsByTagName\<close>.\<close>

fun isTagNamed :: "string \<Rightarrow> node \<Rightarrow> bool" where
  "isTagNamed tag (Elem t n a cs) = (t = ''tag'' \<and> n = tag)"
| "isTagNamed tag (Data t d) = False"

fun children :: "node \<Rightarrow> node list" where
  "children (Elem t n a cs) = cs"
| "children (Data t d) = []"

fun attribs :: "node \<Rightarrow> (string \<times> string) list" where
  "attribs (Elem t n a cs) = a"
| "attribs (Data t d) = []"

text \<open>
  \<^verbatim>\<open>DomUtils.findAll(test, dom)\<close>: every element that passes the test, in document order,
  an element before its descendants.
\<close>

fun findAll :: "(node \<Rightarrow> bool) \<Rightarrow> node list \<Rightarrow> node list"
  and findAllNode :: "(node \<Rightarrow> bool) \<Rightarrow> node \<Rightarrow> node list" where
  "findAll test [] = []"
| "findAll test (x # xs) = findAllNode test x @ findAll test xs"
| "findAllNode test (Data t d) = []"
| "findAllNode test (Elem t n a cs) =
     (if test (Elem t n a cs) then [Elem t n a cs] else []) @ findAll test cs"

definition findDomElementsByTagName :: "node list \<Rightarrow> string \<Rightarrow> node list" where
  "findDomElementsByTagName nodes tag = findAll (isTagNamed tag) nodes"

text \<open>
  Lines 122 and 123: the extensions container is the first top-level node of the current
  component's tree whose name is the container tag, and the extension blocks are those of
  its children whose name is the extension tag. (Both callbacks assign to \<^verbatim>\<open>node.type\<close>
  where a comparison was meant; the value of the assignment is the comparison of the
  names, so the type of a node plays no part, and the nodes whose type is overwritten are
  not part of the merged tree.) \<^verbatim>\<open>None\<close> is the \<^verbatim>\<open>undefined\<close> that \<^verbatim>\<open>find\<close> returns.
\<close>

definition findExtensions :: "options \<Rightarrow> node list \<Rightarrow> node list option" where
  "findExtensions opts currentDom =
     (case find (isNamed (EXTENSIONS_TAG opts)) currentDom of
        None \<Rightarrow> None
      | Some container \<Rightarrow> Some (filter (isNamed (EXTENSION_TAG opts)) (children container)))"

text \<open>
  Line 128: the block for an extension point is the first extension block whose
  reference attribute is identical to the point's name attribute (two missing attributes
  are both \<^verbatim>\<open>undefined\<close> and identical).
\<close>

definition findExtendBlock :: "options \<Rightarrow> node list \<Rightarrow> (string \<times> string) list \<Rightarrow> node option" where
  "findExtendBlock opts extensions pointAttribs =
     find (\<lambda>b. map_of (attribs b) (EXT_POINT_REF_ATTR opts)
                 = map_of pointAttribs (EXT_POINT_NAME_ATTR opts)) extensions"

text \<open>
  Lines 126 to 138. The loop visits the extension points that \<^verbatim>\<open>findAll\<close> collected
  before the first change, a point before the points nested in it, and changes each
  matched point in place: new children, new name, name attribute deleted. The points
  nested in a matched point are detached from the tree with its old children, so what
  the loop does to them is not seen in \<^verbatim>\<open>baseDom\<close>; the new children belong to the
  current component's tree and are not in the collected list. On the tree the loop is
  therefore this recursion, which stops at a matched point and descends everywhere else;
  \<open>forEach_fillPoints\<close> below proves it of the loop run on a store.
\<close>

fun fillPoints :: "options \<Rightarrow> node list \<Rightarrow> node \<Rightarrow> node" where
  "fillPoints opts extensions (Data t d) = Data t d"
| "fillPoints opts extensions (Elem t n a cs) =
     (if t = ''tag'' \<and> n = EXT_POINT_TAG opts then
        (case findExtendBlock opts extensions a of
           Some extendBlock \<Rightarrow>
             Elem t ''template'' (deleteKey (EXT_POINT_NAME_ATTR opts) a) (children extendBlock)
         | None \<Rightarrow> Elem t n a (map (fillPoints opts extensions) cs))
      else Elem t n a (map (fillPoints opts extensions) cs))"

text \<open>
  Lines 54 to 57 of \<^verbatim>\<open>getMergedCode\<close>: every extension point still in the tree is renamed
  and loses its name attribute; its children stay.
\<close>

fun retagPoints :: "options \<Rightarrow> node \<Rightarrow> node" where
  "retagPoints opts (Data t d) = Data t d"
| "retagPoints opts (Elem t n a cs) =
     (if t = ''tag'' \<and> n = EXT_POINT_TAG opts
      then Elem t ''template'' (deleteKey (EXT_POINT_NAME_ATTR opts) a) (map (retagPoints opts) cs)
      else Elem t n a (map (retagPoints opts) cs))"

text \<open>
  The two loops as the source runs them, on a store. A node of a parsed tree is known by
  its address: the indices of the children passed from the top-level list down to the
  node. The store holds the cells the loops have written: for a node's address its new
  name, its new \<^verbatim>\<open>attribs\<close> and, when \<^verbatim>\<open>children\<close> was assigned, its new children (nodes
  of the other tree, which no loop changes). A node without a cell is as it was parsed.
\<close>

type_synonym address = "nat list"

type_synonym cell = "string \<times> (string \<times> string) list \<times> node list option"

text \<open>\<^verbatim>\<open>DomUtils.findAll\<close> with the address of every element found.\<close>

fun locate :: "(node \<Rightarrow> bool) \<Rightarrow> address \<Rightarrow> nat \<Rightarrow> node list \<Rightarrow> (address \<times> node) list"
  and locateNode :: "(node \<Rightarrow> bool) \<Rightarrow> address \<Rightarrow> node \<Rightarrow> (address \<times> node) list" where
  "locate test p i [] = []"
| "locate test p i (x # xs) = locateNode test (p @ [i]) x @ locate test p (Suc i) xs"
| "locateNode test q (Data t d) = []"
| "locateNode test q (Elem t n a cs) =
     (if test (Elem t n a cs) then [(q, Elem t n a cs)] else []) @ locate test q 0 cs"

text \<open>\<^verbatim>\<open>node.attribs\<close> as the store has it at the moment of the read.\<close>

definition attribsNow :: "(address \<rightharpoonup> cell) \<Rightarrow> address \<times> node \<Rightarrow> (string \<times> string) list" where
  "attribsNow s qx = (case s (fst qx) of None \<Rightarrow> attribs (snd qx) | Some (n, a, cs) \<Rightarrow> a)"

text \<open>The body of the loop of lines 126 to 138, for one extension point of the list.\<close>

definition fillVisit ::
  "options \<Rightarrow> node list \<Rightarrow> (address \<rightharpoonup> cell) \<Rightarrow> address \<times> node \<Rightarrow> (address \<rightharpoonup> cell)" where
  "fillVisit opts extensions s extPoint =
     (case findExtendBlock opts extensions (attribsNow s extPoint) of
        Some extendBlock \<Rightarrow>
          s(fst extPoint \<mapsto>
              (''template'', deleteKey (EXT_POINT_NAME_ATTR opts) (attribsNow s extPoint),
               Some (children extendBlock)))
      | None \<Rightarrow> s)"

text \<open>The body of the loop of lines 54 to 57: the children of the node are not assigned.\<close>

definition retagVisit ::
  "options \<Rightarrow> (address \<rightharpoonup> cell) \<Rightarrow> address \<times> node \<Rightarrow> (address \<rightharpoonup> cell)" where
  "retagVisit opts s ext =
     s(fst ext \<mapsto>
         (''template'', deleteKey (EXT_POINT_NAME_ATTR opts) (attribsNow s ext),
          (case s (fst ext) of None \<Rightarrow> None | Some (n, a, cs) \<Rightarrow> cs)))"

text \<open>
  The tree that \<^verbatim>\<open>getOuterHTML\<close> walks after a loop, from the top-level list: a node with
  a cell has the name and \<^verbatim>\<open>attribs\<close> of the cell and, when the cell has children, those
  children; what was below a node whose children were replaced is not reached.
\<close>

fun cellView :: "cell option \<Rightarrow> string \<Rightarrow> string \<Rightarrow> (string \<times> string) list \<Rightarrow> node list \<Rightarrow> node" where
  "cellView None t n a kids = Elem t n a kids"
| "cellView (Some (n', a', None)) t n a kids = Elem t n' a' kids"
| "cellView (Some (n', a', Some cs')) t n a kids = Elem t n' a' cs'"

fun view :: "(address \<rightharpoonup> cell) \<Rightarrow> address \<Rightarrow> nat \<Rightarrow> node list \<Rightarrow> node list"
  and viewNode :: "(address \<rightharpoonup> cell) \<Rightarrow> address \<Rightarrow> node \<Rightarrow> node" where
  "view s p i [] = []"
| "view s p i (x # xs) = viewNode s (p @ [i]) x # view s p (Suc i) xs"
| "viewNode s q (Data t d) = Data t d"
| "viewNode s q (Elem t n a cs) = cellView (s q) t n a (view s q 0 cs)"

text \<open>An address at or below another.\<close>

definition under :: "address \<Rightarrow> address \<Rightarrow> bool" where
  "under q r = (\<exists>rest. r = q @ rest)"

section \<open>Serialising the descriptor\<close>

definition attrToHtmlAttr :: "string \<times> attrval \<Rightarrow> string" where
  "attrToHtmlAttr kv = '' '' @ fst kv @ [CHR ''='', CHR 0x22] @ showAttrval (snd kv) @ [CHR 0x22, CHR '' '']"

text \<open>\<^verbatim>\<open>blockToHTML\<close> returns \<^verbatim>\<open>undefined\<close> (here \<^verbatim>\<open>None\<close>) for a missing block.\<close>

fun blockToHTML :: "block option \<Rightarrow> string option" where
  "blockToHTML None = None"
| "blockToHTML (Some b) =
     Some (''<'' @ type b @ '' '' @ foldl (\<lambda>accum curr. accum @ attrToHtmlAttr curr) [] (attrs b)
           @ ''>'' @ content b @ ''</'' @ type b @ ''>'')"

text \<open>
  \<^verbatim>\<open>descriptorToHTML\<close>: the custom blocks other than extension blocks, the script block
  and the style blocks. The script block's text is concatenated as it is, so a missing
  script block contributes the text \<^verbatim>\<open>undefined\<close>.
\<close>

definition descriptorToHTML :: "options \<Rightarrow> descriptor \<Rightarrow> string" where
  "descriptorToHTML opts d =
     joinWith [CHR 0x0A]
       (map (\<lambda>cb. jsString (blockToHTML (Some cb)))
            (filter (\<lambda>cb. type cb \<noteq> EXTENSION_TAG opts) (customBlocks d)))
     @ jsString (blockToHTML (script d))
     @ joinWith [CHR 0x0A] (map (\<lambda>cb. jsString (blockToHTML (Some cb))) (styles d))"

text \<open>The two template literals, with the line breaks and indentation of the source.\<close>

definition extendableTemplate :: "options \<Rightarrow> string \<Rightarrow> string \<Rightarrow> string" where
  "extendableTemplate opts html rest =
     ''<template '' @ EXTENDABLE_ATTR opts @ ''>'' @ [CHR 0x0A] @ replicate 27 CHR '' '' @ html
     @ [CHR 0x0A] @ replicate 25 CHR '' '' @ ''</template> ''
     @ [CHR 0x0A] @ replicate 25 CHR '' '' @ rest"

definition finalTemplate :: "string \<Rightarrow> string \<Rightarrow> string" where
  "finalTemplate html rest =
     ''<template>'' @ [CHR 0x0A] @ replicate 20 CHR '' '' @ html
     @ [CHR 0x0A] @ replicate 18 CHR '' '' @ ''</template> ''
     @ [CHR 0x0A] @ replicate 18 CHR '' '' @ rest"

section \<open>The resolver\<close>

text \<open>\<^verbatim>\<open>currentDesc.template && currentDesc.template.attrs[options.EXTENDS_ATTR]\<close>.\<close>

definition extendsAttr :: "options \<Rightarrow> descriptor \<Rightarrow> (block \<times> attrval) option" where
  "extendsAttr opts currentDesc =
     (case template currentDesc of
        None \<Rightarrow> None
      | Some t \<Rightarrow>
          (case map_of (attrs t) (EXTENDS_ATTR opts) of
             None \<Rightarrow> None
           | Some v \<Rightarrow> if truthyAttr (Some v) then Some (t, v) else None))"

text \<open>
  Lines 112 to 150, the callback that runs when the base component has been resolved.
  Reading \<^verbatim>\<open>content\<close> of a missing template and \<^verbatim>\<open>children\<close> of a missing container
  throw a \<^verbatim>\<open>TypeError\<close>, which the \<^verbatim>\<open>catch\<close> turns into a rejection.
\<close>

definition mergeWithBase ::
  "'e libs \<Rightarrow> options \<Rightarrow> descriptor \<Rightarrow> block \<Rightarrow> string \<Rightarrow> resolved \<Rightarrow> ('e, resolved) promise" where
  "mergeWithBase L opts currentDesc currentTemplate baseAbsPath r =
     (let ancestors = ancestorsPaths r @ [baseAbsPath] in
      case toDescriptor L (source r) of
        Inl e \<Rightarrow> Rejected (Thrown e)
      | Inr baseDescriptor \<Rightarrow>
          (case template baseDescriptor of
             None \<Rightarrow> Rejected (TypeError ''Cannot read property content of null'')
           | Some baseTemplate \<Rightarrow>
               (let baseDom = parseDOM L (content baseTemplate);
                    currentDom = parseDOM L (content currentTemplate) in
                case findExtensions opts currentDom of
                  None \<Rightarrow> Rejected (TypeError ''Cannot read property children of undefined'')
                | Some extensions \<Rightarrow>
                    Resolved \<lparr>
                      source = extendableTemplate opts
                        (getOuterHTML L (map (fillPoints opts extensions) baseDom))
                        (descriptorToHTML opts currentDesc),
                      ancestorsPaths = ancestors \<rparr>)))"

text \<open>
  \<^verbatim>\<open>resolveComponent\<close>. The first argument bounds the depth of the recursion: a chain of
  ancestors longer than the bound, or one that never ends, leaves the promise pending.
  A valueless \<^verbatim>\<open>extends\<close> attribute is the value \<^verbatim>\<open>true\<close>, which has no \<^verbatim>\<open>split\<close>.
  When the read fails the promise is rejected with the error of the read. Line 107 does
  not return, so the rest of the callback runs with \<^verbatim>\<open>contents\<close> undefined; whatever it
  resolves or rejects afterwards is ignored, the promise being settled already.
\<close>

fun resolveComponent ::
  "nat \<Rightarrow> 'e libs \<Rightarrow> options \<Rightarrow> string \<Rightarrow> string \<Rightarrow> (string \<times> string) list
     \<Rightarrow> ('e, resolved) promise" where
  "resolveComponent 0 L opts currentSource currPath aliases = Pending"
| "resolveComponent (Suc n) L opts currentSource currPath aliases =
     (case toDescriptor L currentSource of
        Inl e \<Rightarrow> Rejected (Thrown e)
      | Inr currentDesc \<Rightarrow>
          (case extendsAttr opts currentDesc of
             None \<Rightarrow> Resolved \<lparr> source = currentSource, ancestorsPaths = [] \<rparr>
           | Some (currentTemplate, Flag) \<Rightarrow>
               Rejected (TypeError ''baseRelPath.split is not a function'')
           | Some (currentTemplate, Str baseRelPath) \<Rightarrow>
               (case resolveBasePath L baseRelPath currPath aliases of
                  Inl e \<Rightarrow> Rejected (Thrown e)
                | Inr baseAbsPath \<Rightarrow>
                    (case readFile L baseAbsPath of
                       Inl err \<Rightarrow> Rejected (Thrown err)
                     | Inr contents \<Rightarrow>
                         (case resolveComponent n L opts contents (pathDirname L baseAbsPath) aliases of
                            Pending \<Rightarrow> Pending
                          | Rejected e \<Rightarrow> Rejected e
                          | Resolved r \<Rightarrow>
                              mergeWithBase L opts currentDesc currentTemplate baseAbsPath r)))))"

section \<open>The finalizer\<close>

text \<open>\<^verbatim>\<open>content.replace(/^(\/\/\n)+/, '')\<close>: the leading run of empty comment lines is removed.\<close>

fun stripCommentLines :: "string \<Rightarrow> string" where
  "stripCommentLines (a # b # c # cs) =
     (if a = CHR ''/'' \<and> b = CHR ''/'' \<and> c = CHR 0x0A then stripCommentLines cs
      else a # b # c # cs)"
| "stripCommentLines cs = cs"

text \<open>
  \<^verbatim>\<open>getMergedCode\<close>. The callback that finalizes the resolved source runs outside any
  \<^verbatim>\<open>try\<close>: when the SFC parser throws there, neither \<^verbatim>\<open>resolve\<close> nor \<^verbatim>\<open>reject\<close> of the
  returned promise is called and it stays pending.
\<close>

definition getMergedCode ::
  "nat \<Rightarrow> 'e libs \<Rightarrow> options \<Rightarrow> string \<Rightarrow> string \<Rightarrow> (string \<times> string) list
     \<Rightarrow> ('e, resolved) promise" where
  "getMergedCode n L opts source0 currPath aliases =
     (case resolveComponent n L opts source0 currPath aliases of
        Pending \<Rightarrow> Pending
      | Rejected error \<Rightarrow> Rejected error
      | Resolved r \<Rightarrow>
          (case toDescriptor L (source r) of
             Inl e \<Rightarrow> Pending
           | Inr parsed \<Rightarrow>
               (let finalDescriptor =
                      parsed \<lparr> script :=
                        map_option (\<lambda>s. s \<lparr> content := stripCommentLines (content s) \<rparr>) (script parsed) \<rparr> in
                case template finalDescriptor of
                  None \<Rightarrow> Resolved r
                | Some t \<Rightarrow>
                    if truthyAttr (map_of (attrs t) (EXTENDABLE_ATTR opts)) then
                      Resolved \<lparr>
                        source = finalTemplate
                          (getOuterHTML L (map (retagPoints opts) (parseDOM L (content t))))
                          (descriptorToHTML opts finalDescriptor),
                        ancestorsPaths = ancestorsPaths r \<rparr>
                    else Resolved r)))"

section \<open>Notions used to state the properties\<close>

text \<open>
  What \<^verbatim>\<open>resolveComponent\<close> computes before it reads the base file, for a component
  that extends another: its descriptor, its template block and the absolute path of the
  base file (lines 74 to 103). \<^verbatim>\<open>None\<close> when the component extends nothing or one of the
  steps fails.
\<close>

definition baseRef ::
  "'e libs \<Rightarrow> options \<Rightarrow> (string \<times> string) list \<Rightarrow> string \<Rightarrow> string
     \<Rightarrow> (descriptor \<times> block \<times> string) option" where
  "baseRef L opts aliases currentSource currPath =
     (case toDescriptor L currentSource of
        Inl e \<Rightarrow> None
      | Inr currentDesc \<Rightarrow>
          (case extendsAttr opts currentDesc of
             None \<Rightarrow> None
           | Some (currentTemplate, Flag) \<Rightarrow> None
           | Some (currentTemplate, Str baseRelPath) \<Rightarrow>
               (case resolveBasePath L baseRelPath currPath aliases of
                  Inl e \<Rightarrow> None
                | Inr baseAbsPath \<Rightarrow> Some (currentDesc, currentTemplate, baseAbsPath))))"

text \<open>The same with the contents read from the base file, when the read succeeds.\<close>

definition baseOf ::
  "'e libs \<Rightarrow> options \<Rightarrow> (string \<times> string) list \<Rightarrow> string \<Rightarrow> string
     \<Rightarrow> (descriptor \<times> block \<times> string \<times> string) option" where
  "baseOf L opts aliases currentSource currPath =
     (case baseRef L opts aliases currentSource currPath of
        None \<Rightarrow> None
      | Some (currentDesc, currentTemplate, baseAbsPath) \<Rightarrow>
          (case readFile L baseAbsPath of
             Inl err \<Rightarrow> None
           | Inr contents \<Rightarrow> Some (currentDesc, currentTemplate, baseAbsPath, contents)))"

text \<open>
  The tree of a source's template: the source split into blocks, the template's content
  parsed. This is what lines 116 to 118 read of the base component and lines 46 to 53 of
  the resolved component.
\<close>

definition templateDom :: "'e libs \<Rightarrow> string \<Rightarrow> (descriptor \<times> block \<times> node list) option" where
  "templateDom L src =
     (case toDescriptor L src of
        Inl e \<Rightarrow> None
      | Inr d \<Rightarrow>
          (case template d of
             None \<Rightarrow> None
           | Some t \<Rightarrow> Some (d, t, parseDOM L (content t))))"

text \<open>The descriptor as \<^verbatim>\<open>getMergedCode\<close> changes it before serialising (line 48).\<close>

definition stripScript :: "descriptor \<Rightarrow> descriptor" where
  "stripScript d =
     d \<lparr> script := map_option (\<lambda>s. s \<lparr> content := stripCommentLines (content s) \<rparr>) (script d) \<rparr>"

text \<open>A forest without extension points.\<close>

definition noPoints :: "options \<Rightarrow> node list \<Rightarrow> bool" where
  "noPoints opts nodes = (findDomElementsByTagName nodes (EXT_POINT_TAG opts) = [])"

text \<open>
  A location in a forest: the siblings to the left and right at each level down to the
  location, and the elements passed on the way. \<open>plug c x\<close> is the forest with the node
  \<open>x\<close> at the location \<open>c\<close>. A location is free of extension points when neither the
  siblings nor the elements on the way contain or are one.
\<close>

datatype ctx =
    Top "node list" "node list"
  | Sub "node list" string string "(string \<times> string) list" ctx "node list"

fun plug :: "ctx \<Rightarrow> node \<Rightarrow> node list" where
  "plug (Top l r) x = l @ x # r"
| "plug (Sub l t n a c r) x = l @ Elem t n a (plug c x) # r"

fun ctxFree :: "options \<Rightarrow> ctx \<Rightarrow> bool" where
  "ctxFree opts (Top l r) = (noPoints opts l \<and> noPoints opts r)"
| "ctxFree opts (Sub l t n a c r) =
     (noPoints opts l \<and> noPoints opts r \<and> (t \<noteq> ''tag'' \<or> n \<noteq> EXT_POINT_TAG opts)
      \<and> ctxFree opts c)"

text \<open>
  A function applied to every sibling along a location. The finalizer's pass along a
  location: every sibling finalized and every extension point on the way renamed,
  without its name attribute.
\<close>

fun mapCtx :: "(node \<Rightarrow> node) \<Rightarrow> ctx \<Rightarrow> ctx" where
  "mapCtx f (Top l r) = Top (map f l) (map f r)"
| "mapCtx f (Sub l t n a c r) = Sub (map f l) t n a (mapCtx f c) (map f r)"

fun retagCtx :: "options \<Rightarrow> ctx \<Rightarrow> ctx" where
  "retagCtx opts (Top l r) = Top (map (retagPoints opts) l) (map (retagPoints opts) r)"
| "retagCtx opts (Sub l t n a c r) =
     (if t = ''tag'' \<and> n = EXT_POINT_TAG opts
      then Sub (map (retagPoints opts) l) t ''template'' (deleteKey (EXT_POINT_NAME_ATTR opts) a)
             (retagCtx opts c) (map (retagPoints opts) r)
      else Sub (map (retagPoints opts) l) t n a (retagCtx opts c) (map (retagPoints opts) r))"

text \<open>
  A location survives a merge with the extension blocks \<open>extensions\<close> when none of the
  extension points on the way to it is matched by a block (a matched point loses its
  children, and the location with them). The siblings may contain extension points,
  matched or not.
\<close>

fun pathOpen :: "options \<Rightarrow> node list \<Rightarrow> ctx \<Rightarrow> bool" where
  "pathOpen opts extensions (Top l r) = True"
| "pathOpen opts extensions (Sub l t n a c r) =
     ((if t = ''tag'' \<and> n = EXT_POINT_TAG opts then findExtendBlock opts extensions a = None
       else True)
      \<and> pathOpen opts extensions c)"

text \<open>An extension block that targets the point named \<open>P\<close>.\<close>

definition targets :: "options \<Rightarrow> string \<Rightarrow> node \<Rightarrow> bool" where
  "targets opts P b = (map_of (attribs b) (EXT_POINT_REF_ATTR opts) = Some P)"

text \<open>
  The chain of ancestors of a component reaches, \<open>k\<close> levels above the component's base,
  a file whose read fails with the error \<open>e\<close>; every read before it succeeds.
\<close>

fun readFailsAt ::
  "nat \<Rightarrow> 'e libs \<Rightarrow> options \<Rightarrow> (string \<times> string) list \<Rightarrow> string \<Rightarrow> string \<Rightarrow> 'e \<Rightarrow> bool" where
  "readFailsAt 0 L opts aliases currentSource currPath e =
     (case baseRef L opts aliases currentSource currPath of
        None \<Rightarrow> False
      | Some (currentDesc, currentTemplate, baseAbsPath) \<Rightarrow> readFile L baseAbsPath = Inl e)"
| "readFailsAt (Suc k) L opts aliases currentSource currPath e =
     (case baseOf L opts aliases currentSource currPath of
        None \<Rightarrow> False
      | Some (currentDesc, currentTemplate, baseAbsPath, contents) \<Rightarrow>
          readFailsAt k L opts aliases contents (pathDirname L baseAbsPath) e)"

section \<open>A test environment\<close>

text \<open>
  A small instance of the parameters, on which the properties are evaluated: files in a
  directory \<^verbatim>\<open>/src\<close>, and the libraries as tables and functions that agree with the
  real ones on the texts that occur. The SFC parser and the HTML parser are tables from
  the sources and template contents that occur to the descriptors and trees the parsers
  give for them; the merged sources the resolver builds are among them, each written out
  as the text it is. The serialiser writes an element as \<^verbatim>\<open>getOuterHTML\<close> does, an
  attribute with its value in double quotes. Paths are joined with a slash, a leading
  \<^verbatim>\<open>./\<close> of the reference dropped. Regular expressions are keys without metacharacters:
  a key matches where it occurs.
\<close>

fun startsWith :: "string \<Rightarrow> string \<Rightarrow> bool" where
  "startsWith [] s = True"
| "startsWith (p # ps) [] = False"
| "startsWith (p # ps) (c # cs) = (p = c \<and> startsWith ps cs)"

fun containsLit :: "string \<Rightarrow> string \<Rightarrow> bool" where
  "containsLit pat [] = startsWith pat []"
| "containsLit pat (c # cs) = (startsWith pat (c # cs) \<or> containsLit pat cs)"

fun replaceLit :: "string \<Rightarrow> string \<Rightarrow> string \<Rightarrow> string" where
  "replaceLit pat [] rep = (if startsWith pat [] then rep else [])"
| "replaceLit pat (c # cs) rep =
     (if startsWith pat (c # cs) then rep @ drop (length pat) (c # cs)
      else c # replaceLit pat cs rep)"

definition renderAttr :: "string \<times> string \<Rightarrow> string" where
  "renderAttr kv =
     (if snd kv = [] then '' '' @ fst kv
      else '' '' @ fst kv @ ''='' @ [CHR 0x22] @ snd kv @ [CHR 0x22])"

fun render :: "node list \<Rightarrow> string" and renderNode :: "node \<Rightarrow> string" where
  "render [] = []"
| "render (x # xs) = renderNode x @ render xs"
| "renderNode (Data t d) = d"
| "renderNode (Elem t n a cs) =
     ''<'' @ n @ concat (map renderAttr a) @ ''>'' @ render cs @ ''</'' @ n @ ''>''"

definition testJoin :: "string \<Rightarrow> string \<Rightarrow> string" where
  "testJoin dir ref =
     (let rest = (if startsWith ''./'' ref then drop 2 ref else ref)
      in if rest = [] then dir else dir @ ''/'' @ rest)"

definition testDirname :: "string \<Rightarrow> string" where
  "testDirname p = joinWith ''/'' (butlast (splitPath p))"

text \<open>A descriptor with a template and a script block.\<close>

definition sfc :: "(string \<times> attrval) list \<Rightarrow> string \<Rightarrow> string \<Rightarrow> descriptor" where
  "sfc tattrs tcontent scontent = \<lparr>
     template = Some \<lparr> type = ''template'', attrs = tattrs, content = tcontent \<rparr>,
     script = Some \<lparr> type = ''script'', attrs = [], content = scontent \<rparr>,
     styles = [], customBlocks = [] \<rparr>"

text \<open>The root component: one extension point \<^verbatim>\<open>P\<close> with the default content \<^verbatim>\<open>D\<close>.\<close>

definition rootContent :: string where
  "rootContent = ''<div><extension-point name=P>D</extension-point></div>''"

definition rootSrc :: string where
  "rootSrc = ''<template>'' @ rootContent @ ''</template><script>R</script>''"

definition rootDesc :: descriptor where
  "rootDesc = sfc [] rootContent ''R''"

definition pointP :: node where
  "pointP = Elem ''tag'' ''extension-point'' [(''name'', ''P'')] [Data ''text'' ''D'']"

definition rootDom :: "node list" where
  "rootDom = [Elem ''tag'' ''div'' [] [pointP]]"

text \<open>Template contents of derived components: one that fills \<^verbatim>\<open>P\<close>, one that does not.\<close>

definition fillContent :: string where
  "fillContent = ''<extensions><extension point=P>C</extension></extensions>''"

definition fillDom :: "node list" where
  "fillDom = [Elem ''tag'' ''extensions'' []
                [Elem ''tag'' ''extension'' [(''point'', ''P'')] [Data ''text'' ''C'']]]"

definition openContent :: string where
  "openContent = ''<extensions></extensions>''"

definition openDom :: "node list" where
  "openDom = [Elem ''tag'' ''extensions'' [] []]"

text \<open>A template whose extensions container is not at the top level.\<close>

definition bareContent :: string where
  "bareContent = ''<div><extensions></extensions></div>''"

definition bareDom :: "node list" where
  "bareDom = [Elem ''tag'' ''div'' [] [Elem ''tag'' ''extensions'' [] []]]"

text \<open>
  \<^verbatim>\<open>Child\<close> extends \<^verbatim>\<open>Root\<close> and fills \<^verbatim>\<open>P\<close>; \<^verbatim>\<open>Mid\<close> extends \<^verbatim>\<open>Root\<close> and leaves \<^verbatim>\<open>P\<close>
  open; \<^verbatim>\<open>Leaf\<close> extends \<^verbatim>\<open>Mid\<close> and fills \<^verbatim>\<open>P\<close>; \<^verbatim>\<open>Bare\<close> extends \<^verbatim>\<open>Root\<close> with the
  nested container; \<^verbatim>\<open>Lost\<close> extends a file that does not exist and \<^verbatim>\<open>Orphan\<close> extends
  \<^verbatim>\<open>Lost\<close>.
\<close>

definition childSrc :: string where
  "childSrc = ''<template extends=./Root.vue>'' @ fillContent @ ''</template><script>K</script>''"

definition childDesc :: descriptor where
  "childDesc = sfc [(''extends'', Str ''./Root.vue'')] fillContent ''K''"

definition midSrc :: string where
  "midSrc = ''<template extends=./Root.vue>'' @ openContent @ ''</template><script>M</script>''"

definition midDesc :: descriptor where
  "midDesc = sfc [(''extends'', Str ''./Root.vue'')] openContent ''M''"

definition leafSrc :: string where
  "leafSrc = ''<template extends=./Mid.vue>'' @ fillContent @ ''</template><script>L</script>''"

definition leafDesc :: descriptor where
  "leafDesc = sfc [(''extends'', Str ''./Mid.vue'')] fillContent ''L''"

definition bareSrc :: string where
  "bareSrc = ''<template extends=./Root.vue>'' @ bareContent @ ''</template><script>B</script>''"

definition bareDesc :: descriptor where
  "bareDesc = sfc [(''extends'', Str ''./Root.vue'')] bareContent ''B''"

definition lostSrc :: string where
  "lostSrc = ''<template extends=./Missing.vue>'' @ openContent @ ''</template><script>X</script>''"

definition lostDesc :: descriptor where
  "lostDesc = sfc [(''extends'', Str ''./Missing.vue'')] openContent ''X''"

definition orphanSrc :: string where
  "orphanSrc = ''<template extends=./Lost.vue>'' @ openContent @ ''</template><script>O</script>''"

definition orphanDesc :: descriptor where
  "orphanDesc = sfc [(''extends'', Str ''./Lost.vue'')] openContent ''O''"

text \<open>
  A template whose \<^verbatim>\<open>extends\<close> attribute has an empty value, and one whose \<^verbatim>\<open>extends\<close>
  attribute has no value: the SFC parser stores \<^verbatim>\<open>true\<close> for both.
\<close>

definition emptySrc :: string where
  "emptySrc = ''<template extends='' @ [CHR 0x22, CHR 0x22] @ ''>'' @ openContent
     @ ''</template><script>S</script>''"

definition emptyDesc :: descriptor where
  "emptyDesc = sfc [(''extends'', Flag)] openContent ''S''"

definition flagSrc :: string where
  "flagSrc = ''<template extends>'' @ openContent @ ''</template><script>S</script>''"

definition flagDesc :: descriptor where
  "flagDesc = sfc [(''extends'', Flag)] openContent ''S''"

text \<open>A template whose \<^verbatim>\<open>extends\<close> attribute is a blank.\<close>

definition blankSrc :: string where
  "blankSrc = ''<template extends='' @ [CHR 0x22] @ '' '' @ [CHR 0x22] @ ''>'' @ openContent
     @ ''</template><script>S</script>''"

definition blankDesc :: descriptor where
  "blankDesc = sfc [(''extends'', Str '' '')] openContent ''S''"

text \<open>
  A root whose point \<^verbatim>\<open>P\<close> is part of the default content of a point \<^verbatim>\<open>Q\<close>;
  \<^verbatim>\<open>NestMid\<close> extends it and fills \<^verbatim>\<open>Q\<close>; \<^verbatim>\<open>NestLeaf\<close> extends \<^verbatim>\<open>NestMid\<close> and fills \<^verbatim>\<open>P\<close>.
\<close>

definition nestContent :: string where
  "nestContent =
     ''<div><extension-point name=Q><extension-point name=P>D</extension-point></extension-point></div>''"

definition nestDom :: "node list" where
  "nestDom = [Elem ''tag'' ''div'' [] [Elem ''tag'' ''extension-point'' [(''name'', ''Q'')] [pointP]]]"

definition nestSrc :: string where
  "nestSrc = ''<template>'' @ nestContent @ ''</template><script>N</script>''"

definition nestDesc :: descriptor where
  "nestDesc = sfc [] nestContent ''N''"

definition fillQContent :: string where
  "fillQContent = ''<extensions><extension point=Q>E</extension></extensions>''"

definition fillQDom :: "node list" where
  "fillQDom = [Elem ''tag'' ''extensions'' []
                 [Elem ''tag'' ''extension'' [(''point'', ''Q'')] [Data ''text'' ''E'']]]"

definition nestMidSrc :: string where
  "nestMidSrc = ''<template extends=./Nest.vue>'' @ fillQContent @ ''</template><script>M</script>''"

definition nestMidDesc :: descriptor where
  "nestMidDesc = sfc [(''extends'', Str ''./Nest.vue'')] fillQContent ''M''"

definition nestLeafSrc :: string where
  "nestLeafSrc = ''<template extends=./NestMid.vue>'' @ fillContent @ ''</template><script>L</script>''"

definition nestLeafDesc :: descriptor where
  "nestLeafDesc = sfc [(''extends'', Str ''./NestMid.vue'')] fillContent ''L''"

text \<open>
  Derived components of \<^verbatim>\<open>Root\<close> whose extensions are not what the lookup expects: the
  container inside another element, two blocks for \<^verbatim>\<open>P\<close>, two containers.
\<close>

definition nestedFillContent :: string where
  "nestedFillContent = ''<div>'' @ fillContent @ ''</div>''"

definition nestedFillSrc :: string where
  "nestedFillSrc = ''<template extends=./Root.vue>'' @ nestedFillContent @ ''</template><script>N</script>''"

definition nestedFillDesc :: descriptor where
  "nestedFillDesc = sfc [(''extends'', Str ''./Root.vue'')] nestedFillContent ''N''"

definition twoBlocksContent :: string where
  "twoBlocksContent =
     ''<extensions><extension point=P>X</extension><extension point=P>C</extension></extensions>''"

definition twoBlocksSrc :: string where
  "twoBlocksSrc = ''<template extends=./Root.vue>'' @ twoBlocksContent @ ''</template><script>T</script>''"

definition twoBlocksDesc :: descriptor where
  "twoBlocksDesc = sfc [(''extends'', Str ''./Root.vue'')] twoBlocksContent ''T''"

definition twoContainersContent :: string where
  "twoContainersContent = openContent @ fillContent"

definition twoContainersSrc :: string where
  "twoContainersSrc = ''<template extends=./Root.vue>'' @ twoContainersContent @ ''</template><script>U</script>''"

definition twoContainersDesc :: descriptor where
  "twoContainersDesc = sfc [(''extends'', Str ''./Root.vue'')] twoContainersContent ''U''"

text \<open>
  \<^verbatim>\<open>NestFill\<close> extends \<^verbatim>\<open>Nest\<close> and fills \<^verbatim>\<open>P\<close>, not \<^verbatim>\<open>Q\<close>; \<^verbatim>\<open>LeafX\<close> extends \<^verbatim>\<open>Mid\<close> and
  fills \<^verbatim>\<open>P\<close> with an extension point of its own; \<^verbatim>\<open>LeafOfBare\<close> extends \<^verbatim>\<open>Bare\<close> and
  fills \<^verbatim>\<open>P\<close>.
\<close>

definition nestFillSrc :: string where
  "nestFillSrc = ''<template extends=./Nest.vue>'' @ fillContent @ ''</template><script>F</script>''"

definition nestFillDesc :: descriptor where
  "nestFillDesc = sfc [(''extends'', Str ''./Nest.vue'')] fillContent ''F''"

definition fillXContent :: string where
  "fillXContent =
     ''<extensions><extension point=P><extension-point name=X>x</extension-point></extension></extensions>''"

definition leafXSrc :: string where
  "leafXSrc = ''<template extends=./Mid.vue>'' @ fillXContent @ ''</template><script>X</script>''"

definition leafXDesc :: descriptor where
  "leafXDesc = sfc [(''extends'', Str ''./Mid.vue'')] fillXContent ''X''"

definition leafOfBareSrc :: string where
  "leafOfBareSrc = ''<template extends=./Bare.vue>'' @ fillContent @ ''</template><script>Y</script>''"

definition leafOfBareDesc :: descriptor where
  "leafOfBareDesc = sfc [(''extends'', Str ''./Bare.vue'')] fillContent ''Y''"

text \<open>
  \<^verbatim>\<open>NestOpen\<close> extends \<^verbatim>\<open>Nest\<close> and fills nothing; \<^verbatim>\<open>NestOpenLeaf\<close> extends \<^verbatim>\<open>NestOpen\<close>
  and fills \<^verbatim>\<open>P\<close>; \<^verbatim>\<open>LeafBoth\<close> extends \<^verbatim>\<open>NestOpen\<close> and fills \<^verbatim>\<open>Q\<close> and \<^verbatim>\<open>P\<close>.
\<close>

definition nestOpenSrc :: string where
  "nestOpenSrc = ''<template extends=./Nest.vue>'' @ openContent @ ''</template><script>NO</script>''"

definition nestOpenDesc :: descriptor where
  "nestOpenDesc = sfc [(''extends'', Str ''./Nest.vue'')] openContent ''NO''"

definition nestOpenLeafSrc :: string where
  "nestOpenLeafSrc =
     ''<template extends=./NestOpen.vue>'' @ fillContent @ ''</template><script>NL</script>''"

definition nestOpenLeafDesc :: descriptor where
  "nestOpenLeafDesc = sfc [(''extends'', Str ''./NestOpen.vue'')] fillContent ''NL''"

definition fillBothContent :: string where
  "fillBothContent =
     ''<extensions><extension point=Q>F</extension><extension point=P>C</extension></extensions>''"

definition leafBothSrc :: string where
  "leafBothSrc =
     ''<template extends=./NestOpen.vue>'' @ fillBothContent @ ''</template><script>LB</script>''"

definition leafBothDesc :: descriptor where
  "leafBothDesc = sfc [(''extends'', Str ''./NestOpen.vue'')] fillBothContent ''LB''"

text \<open>
  \<^verbatim>\<open>Rich\<close> extends \<^verbatim>\<open>Root\<close> and has a script with an attribute, two style blocks and two
  custom blocks, one of them of the extension type. \<^verbatim>\<open>RootAlt\<close> has the template of
  \<^verbatim>\<open>Root\<close> and other sections.
\<close>

definition richSrc :: string where
  "richSrc = ''<template extends=./Root.vue>'' @ fillContent
     @ ''</template><docs>H</docs><extension point=P>Z</extension><script lang=ts>K</script>''
     @ ''<style scoped>S1</style><style>S2</style>''"

definition richDesc :: descriptor where
  "richDesc = \<lparr>
     template = Some \<lparr> type = ''template'', attrs = [(''extends'', Str ''./Root.vue'')],
                       content = fillContent \<rparr>,
     script = Some \<lparr> type = ''script'', attrs = [(''lang'', Str ''ts'')], content = ''K'' \<rparr>,
     styles = [\<lparr> type = ''style'', attrs = [(''scoped'', Flag)], content = ''S1'' \<rparr>,
               \<lparr> type = ''style'', attrs = [], content = ''S2'' \<rparr>],
     customBlocks = [\<lparr> type = ''docs'', attrs = [], content = ''H'' \<rparr>,
                     \<lparr> type = ''extension'', attrs = [(''point'', Str ''P'')], content = ''Z'' \<rparr>] \<rparr>"

definition rootAltSrc :: string where
  "rootAltSrc = ''<template>'' @ rootContent
     @ ''</template><docs>A</docs><script>ALT</script><style>A1</style>''"

definition rootAltDesc :: descriptor where
  "rootAltDesc = \<lparr>
     template = Some \<lparr> type = ''template'', attrs = [], content = rootContent \<rparr>,
     script = Some \<lparr> type = ''script'', attrs = [], content = ''ALT'' \<rparr>,
     styles = [\<lparr> type = ''style'', attrs = [], content = ''A1'' \<rparr>],
     customBlocks = [\<lparr> type = ''docs'', attrs = [], content = ''A'' \<rparr>] \<rparr>"

text \<open>
  A root whose template is marked extendable and holds a \<^verbatim>\<open>style\<close> element, which the HTML
  parser gives the type \<^verbatim>\<open>style\<close>, and a \<^verbatim>\<open>template\<close> element.
\<close>

definition markedContent :: string where
  "markedContent = ''<style name=P>D</style><template name=Q>E</template>''"

definition markedSrc :: string where
  "markedSrc = ''<template extendable>'' @ markedContent @ ''</template><script>S</script>''"

definition markedDesc :: descriptor where
  "markedDesc = sfc [(''extendable'', Flag)] markedContent ''S''"

definition markedDom :: "node list" where
  "markedDom = [Elem ''style'' ''style'' [(''name'', ''P'')] [Data ''text'' ''D''],
                Elem ''tag'' ''template'' [(''name'', ''Q'')] [Data ''text'' ''E'']]"

text \<open>
  The merged sources, as texts: the serialised tree inside the template literal of
  lines 140 to 143, then the sections. For each the descriptor the SFC parser gives. It
  removes the indentation common to the lines of a block's content when the first line
  that is not blank is indented, so that the template's content is the tree between two
  line breaks after one merge and keeps the indentation of the literal after two. It
  pads the content of every block other than the template with one line for each line
  of the source before the block: an empty comment line in a script without a \<^verbatim>\<open>lang\<close>
  attribute, an empty line in every other block. An attribute serialised with the value
  \<^verbatim>\<open>true\<close> is read back as that string. For the template's content, the tree the HTML
  parser gives: the white space around the elements is text.
\<close>

definition mergedMidSrc :: string where
  "mergedMidSrc =
     ''<template extendable>\<newline>                           <div><extension-point name='' @ [CHR 0x22] @ ''P'' @ [CHR 0x22] @ ''>D</extension-point></div>\<newline>                         </template> \<newline>                         <script >M</script>''"

definition mergedMidContent :: string where
  "mergedMidContent =
     ''\<newline><div><extension-point name='' @ [CHR 0x22] @ ''P'' @ [CHR 0x22] @ ''>D</extension-point></div>\<newline>''"

definition mergedMidDom :: "node list" where
  "mergedMidDom =
     [Data ''text'' ''\<newline>'', Elem ''tag'' ''div'' [] [Elem ''tag'' ''extension-point'' [(''name'', ''P'')] [Data ''text'' ''D'']], Data ''text'' ''\<newline>'']"

definition mergedMidDesc :: descriptor where
  "mergedMidDesc = sfc [(''extendable'', Flag)] mergedMidContent
     ''//\<newline>//\<newline>//\<newline>M''"

definition mergedLeafSrc :: string where
  "mergedLeafSrc =
     ''<template extendable>\<newline>                           \<newline><div><template>C</template></div>\<newline>\<newline>                         </template> \<newline>                         <script >L</script>''"

definition mergedLeafContent :: string where
  "mergedLeafContent =
     ''\<newline>                           \<newline><div><template>C</template></div>\<newline>\<newline>                         ''"

definition mergedLeafDom :: "node list" where
  "mergedLeafDom =
     [Data ''text'' ''\<newline>                           \<newline>'', Elem ''tag'' ''div'' [] [Elem ''tag'' ''template'' [] [Data ''text'' ''C'']], Data ''text'' ''\<newline>\<newline>                         '']"

definition mergedLeafDesc :: descriptor where
  "mergedLeafDesc = sfc [(''extendable'', Flag)] mergedLeafContent
     ''//\<newline>//\<newline>//\<newline>//\<newline>//\<newline>L''"

definition mergedNestMidSrc :: string where
  "mergedNestMidSrc =
     ''<template extendable>\<newline>                           <div><template>E</template></div>\<newline>                         </template> \<newline>                         <script >M</script>''"

definition mergedNestMidContent :: string where
  "mergedNestMidContent =
     ''\<newline><div><template>E</template></div>\<newline>''"

definition mergedNestMidDom :: "node list" where
  "mergedNestMidDom =
     [Data ''text'' ''\<newline>'', Elem ''tag'' ''div'' [] [Elem ''tag'' ''template'' [] [Data ''text'' ''E'']], Data ''text'' ''\<newline>'']"

definition mergedNestMidDesc :: descriptor where
  "mergedNestMidDesc = sfc [(''extendable'', Flag)] mergedNestMidContent
     ''//\<newline>//\<newline>//\<newline>M''"

definition mergedNestLeafSrc :: string where
  "mergedNestLeafSrc =
     ''<template extendable>\<newline>                           \<newline><div><template>E</template></div>\<newline>\<newline>                         </template> \<newline>                         <script >L</script>''"

definition mergedNestLeafContent :: string where
  "mergedNestLeafContent =
     ''\<newline>                           \<newline><div><template>E</template></div>\<newline>\<newline>                         ''"

definition mergedNestLeafDom :: "node list" where
  "mergedNestLeafDom =
     [Data ''text'' ''\<newline>                           \<newline>'', Elem ''tag'' ''div'' [] [Elem ''tag'' ''template'' [] [Data ''text'' ''E'']], Data ''text'' ''\<newline>\<newline>                         '']"

definition mergedNestLeafDesc :: descriptor where
  "mergedNestLeafDesc = sfc [(''extendable'', Flag)] mergedNestLeafContent
     ''//\<newline>//\<newline>//\<newline>//\<newline>//\<newline>L''"

definition mergedNestFillSrc :: string where
  "mergedNestFillSrc =
     ''<template extendable>\<newline>                           <div><extension-point name='' @ [CHR 0x22] @ ''Q'' @ [CHR 0x22] @ ''><template>C</template></extension-point></div>\<newline>                         </template> \<newline>                         <script >F</script>''"

definition mergedNestFillContent :: string where
  "mergedNestFillContent =
     ''\<newline><div><extension-point name='' @ [CHR 0x22] @ ''Q'' @ [CHR 0x22] @ ''><template>C</template></extension-point></div>\<newline>''"

definition mergedNestFillDom :: "node list" where
  "mergedNestFillDom =
     [Data ''text'' ''\<newline>'', Elem ''tag'' ''div'' [] [Elem ''tag'' ''extension-point'' [(''name'', ''Q'')] [Elem ''tag'' ''template'' [] [Data ''text'' ''C'']]], Data ''text'' ''\<newline>'']"

definition mergedNestFillDesc :: descriptor where
  "mergedNestFillDesc = sfc [(''extendable'', Flag)] mergedNestFillContent
     ''//\<newline>//\<newline>//\<newline>F''"

definition mergedLeafXSrc :: string where
  "mergedLeafXSrc =
     ''<template extendable>\<newline>                           \<newline><div><template><extension-point name='' @ [CHR 0x22] @ ''X'' @ [CHR 0x22] @ ''>x</extension-point></template></div>\<newline>\<newline>                         </template> \<newline>                         <script >X</script>''"

definition mergedLeafXContent :: string where
  "mergedLeafXContent =
     ''\<newline>                           \<newline><div><template><extension-point name='' @ [CHR 0x22] @ ''X'' @ [CHR 0x22] @ ''>x</extension-point></template></div>\<newline>\<newline>                         ''"

definition mergedLeafXDom :: "node list" where
  "mergedLeafXDom =
     [Data ''text'' ''\<newline>                           \<newline>'', Elem ''tag'' ''div'' [] [Elem ''tag'' ''template'' [] [Elem ''tag'' ''extension-point'' [(''name'', ''X'')] [Data ''text'' ''x'']]], Data ''text'' ''\<newline>\<newline>                         '']"

definition mergedLeafXDesc :: descriptor where
  "mergedLeafXDesc = sfc [(''extendable'', Flag)] mergedLeafXContent
     ''//\<newline>//\<newline>//\<newline>//\<newline>//\<newline>X''"

definition mergedRichSrc :: string where
  "mergedRichSrc =
     ''<template extendable>\<newline>                           <div><template>C</template></div>\<newline>                         </template> \<newline>                         <docs >H</docs><script  lang='' @ [CHR 0x22] @ ''ts'' @ [CHR 0x22] @ '' >K</script><style  scoped='' @ [CHR 0x22] @ ''true'' @ [CHR 0x22] @ '' >S1</style>\<newline><style >S2</style>''"

definition mergedRichContent :: string where
  "mergedRichContent =
     ''\<newline><div><template>C</template></div>\<newline>''"

definition mergedRichDom :: "node list" where
  "mergedRichDom =
     [Data ''text'' ''\<newline>'', Elem ''tag'' ''div'' [] [Elem ''tag'' ''template'' [] [Data ''text'' ''C'']], Data ''text'' ''\<newline>'']"

definition mergedRichDesc :: descriptor where
  "mergedRichDesc = \<lparr>
     template = Some \<lparr> type = ''template'', attrs = [(''extendable'', Flag)], content = mergedRichContent \<rparr>,
     script = Some \<lparr> type = ''script'', attrs = [(''lang'', Str ''ts'')], content = ''\<newline>\<newline>\<newline>K'' \<rparr>,
     styles = [\<lparr> type = ''style'', attrs = [(''scoped'', Str ''true'')], content = ''\<newline>\<newline>\<newline>S1'' \<rparr>,
               \<lparr> type = ''style'', attrs = [], content = ''\<newline>\<newline>\<newline>\<newline>S2'' \<rparr>],
     customBlocks = [\<lparr> type = ''docs'', attrs = [], content = ''\<newline>\<newline>\<newline>H'' \<rparr>] \<rparr>"

definition mergedNestOpenSrc :: string where
  "mergedNestOpenSrc =
     ''<template extendable>\<newline>                           <div><extension-point name='' @ [CHR 0x22] @ ''Q'' @ [CHR 0x22] @ ''><extension-point name='' @ [CHR 0x22] @ ''P'' @ [CHR 0x22] @ ''>D</extension-point></extension-point></div>\<newline>                         </template> \<newline>                         <script >NO</script>''"

definition mergedNestOpenContent :: string where
  "mergedNestOpenContent =
     ''\<newline><div><extension-point name='' @ [CHR 0x22] @ ''Q'' @ [CHR 0x22] @ ''><extension-point name='' @ [CHR 0x22] @ ''P'' @ [CHR 0x22] @ ''>D</extension-point></extension-point></div>\<newline>''"

definition mergedNestOpenDom :: "node list" where
  "mergedNestOpenDom =
     [Data ''text'' ''\<newline>'', Elem ''tag'' ''div'' [] [Elem ''tag'' ''extension-point'' [(''name'', ''Q'')] [Elem ''tag'' ''extension-point'' [(''name'', ''P'')] [Data ''text'' ''D'']]], Data ''text'' ''\<newline>'']"

definition mergedNestOpenDesc :: descriptor where
  "mergedNestOpenDesc = sfc [(''extendable'', Flag)] mergedNestOpenContent
     ''//\<newline>//\<newline>//\<newline>NO''"

definition mergedNestOpenLeafSrc :: string where
  "mergedNestOpenLeafSrc =
     ''<template extendable>\<newline>                           \<newline><div><extension-point name='' @ [CHR 0x22] @ ''Q'' @ [CHR 0x22] @ ''><template>C</template></extension-point></div>\<newline>\<newline>                         </template> \<newline>                         <script >NL</script>''"

definition mergedNestOpenLeafContent :: string where
  "mergedNestOpenLeafContent =
     ''\<newline>                           \<newline><div><extension-point name='' @ [CHR 0x22] @ ''Q'' @ [CHR 0x22] @ ''><template>C</template></extension-point></div>\<newline>\<newline>                         ''"

definition mergedNestOpenLeafDom :: "node list" where
  "mergedNestOpenLeafDom =
     [Data ''text'' ''\<newline>                           \<newline>'', Elem ''tag'' ''div'' [] [Elem ''tag'' ''extension-point'' [(''name'', ''Q'')] [Elem ''tag'' ''template'' [] [Data ''text'' ''C'']]], Data ''text'' ''\<newline>\<newline>                         '']"

definition mergedNestOpenLeafDesc :: descriptor where
  "mergedNestOpenLeafDesc = sfc [(''extendable'', Flag)] mergedNestOpenLeafContent
     ''//\<newline>//\<newline>//\<newline>//\<newline>//\<newline>NL''"

definition mergedLeafBothSrc :: string where
  "mergedLeafBothSrc =
     ''<template extendable>\<newline>                           \<newline><div><template>F</template></div>\<newline>\<newline>                         </template> \<newline>                         <script >LB</script>''"

definition mergedLeafBothContent :: string where
  "mergedLeafBothContent =
     ''\<newline>                           \<newline><div><template>F</template></div>\<newline>\<newline>                         ''"

definition mergedLeafBothDom :: "node list" where
  "mergedLeafBothDom =
     [Data ''text'' ''\<newline>                           \<newline>'', Elem ''tag'' ''div'' [] [Elem ''tag'' ''template'' [] [Data ''text'' ''F'']], Data ''text'' ''\<newline>\<newline>                         '']"

definition mergedLeafBothDesc :: descriptor where
  "mergedLeafBothDesc = sfc [(''extendable'', Flag)] mergedLeafBothContent
     ''//\<newline>//\<newline>//\<newline>//\<newline>//\<newline>LB''"

definition testFiles :: "(string \<times> string) list" where
  "testFiles = [
     (''/src/Root.vue'', rootSrc), (''/src/Child.vue'', childSrc), (''/src/Mid.vue'', midSrc),
     (''/src/Leaf.vue'', leafSrc), (''/src/Bare.vue'', bareSrc), (''/src/Lost.vue'', lostSrc),
     (''/src/Orphan.vue'', orphanSrc), (''/src/Nest.vue'', nestSrc),
     (''/src/NestMid.vue'', nestMidSrc), (''/src/NestLeaf.vue'', nestLeafSrc),
     (''/src/NestFill.vue'', nestFillSrc), (''/src/LeafX.vue'', leafXSrc),
     (''/src/LeafOfBare.vue'', leafOfBareSrc), (''/src/Rich.vue'', richSrc),
     (''/src/NestOpen.vue'', nestOpenSrc), (''/src/NestOpenLeaf.vue'', nestOpenLeafSrc),
     (''/src/LeafBoth.vue'', leafBothSrc)]"

definition testSources :: "(string \<times> descriptor) list" where
  "testSources = [
     (rootSrc, rootDesc), (childSrc, childDesc), (midSrc, midDesc), (leafSrc, leafDesc),
     (bareSrc, bareDesc), (lostSrc, lostDesc), (orphanSrc, orphanDesc),
     (emptySrc, emptyDesc), (flagSrc, flagDesc), (blankSrc, blankDesc),
     (nestSrc, nestDesc), (nestMidSrc, nestMidDesc), (nestLeafSrc, nestLeafDesc),
     (nestedFillSrc, nestedFillDesc), (twoBlocksSrc, twoBlocksDesc),
     (twoContainersSrc, twoContainersDesc), (nestFillSrc, nestFillDesc),
     (leafXSrc, leafXDesc), (leafOfBareSrc, leafOfBareDesc), (richSrc, richDesc),
     (rootAltSrc, rootAltDesc), (markedSrc, markedDesc),
     (nestOpenSrc, nestOpenDesc), (nestOpenLeafSrc, nestOpenLeafDesc), (leafBothSrc, leafBothDesc),
     (mergedMidSrc, mergedMidDesc), (mergedLeafSrc, mergedLeafDesc),
     (mergedNestMidSrc, mergedNestMidDesc), (mergedNestLeafSrc, mergedNestLeafDesc),
     (mergedNestFillSrc, mergedNestFillDesc), (mergedLeafXSrc, mergedLeafXDesc),
     (mergedRichSrc, mergedRichDesc), (mergedNestOpenSrc, mergedNestOpenDesc),
     (mergedNestOpenLeafSrc, mergedNestOpenLeafDesc), (mergedLeafBothSrc, mergedLeafBothDesc)]"

definition testTemplates :: "(string \<times> node list) list" where
  "testTemplates = [
     (rootContent, rootDom), (fillContent, fillDom), (openContent, openDom),
     (bareContent, bareDom), (nestContent, nestDom), (fillQContent, fillQDom),
     (nestedFillContent, [Elem ''tag'' ''div'' [] [Elem ''tag'' ''extensions'' [] [Elem ''tag'' ''extension'' [(''point'', ''P'')] [Data ''text'' ''C'']]]]),
     (twoBlocksContent, [Elem ''tag'' ''extensions'' [] [Elem ''tag'' ''extension'' [(''point'', ''P'')] [Data ''text'' ''X''], Elem ''tag'' ''extension'' [(''point'', ''P'')] [Data ''text'' ''C'']]]),
     (twoContainersContent, [Elem ''tag'' ''extensions'' [] [], Elem ''tag'' ''extensions'' [] [Elem ''tag'' ''extension'' [(''point'', ''P'')] [Data ''text'' ''C'']]]),
     (fillXContent, [Elem ''tag'' ''extensions'' [] [Elem ''tag'' ''extension'' [(''point'', ''P'')] [Elem ''tag'' ''extension-point'' [(''name'', ''X'')] [Data ''text'' ''x'']]]]),
     (markedContent, markedDom),
     (fillBothContent, [Elem ''tag'' ''extensions'' [] [Elem ''tag'' ''extension'' [(''point'', ''Q'')] [Data ''text'' ''F''], Elem ''tag'' ''extension'' [(''point'', ''P'')] [Data ''text'' ''C'']]]),
     (mergedMidContent, mergedMidDom), (mergedLeafContent, mergedLeafDom),
     (mergedNestMidContent, mergedNestMidDom), (mergedNestLeafContent, mergedNestLeafDom),
     (mergedNestFillContent, mergedNestFillDom), (mergedLeafXContent, mergedLeafXDom),
     (mergedRichContent, mergedRichDom), (mergedNestOpenContent, mergedNestOpenDom),
     (mergedNestOpenLeafContent, mergedNestOpenLeafDom), (mergedLeafBothContent, mergedLeafBothDom)]"

definition testLibs :: "string libs" where
  "testLibs = \<lparr>
     toDescriptor = (\<lambda>s. case map_of testSources s of
                          None \<Rightarrow> Inr \<lparr> template = None, script = None, styles = [], customBlocks = [] \<rparr>
                        | Some d \<Rightarrow> Inr d),
     parseDOM = (\<lambda>s. case map_of testTemplates s of None \<Rightarrow> [Data ''text'' s] | Some t \<Rightarrow> t),
     getOuterHTML = render,
     readFile = (\<lambda>p. case map_of testFiles p of None \<Rightarrow> Inl (''ENOENT '' @ p) | Some s \<Rightarrow> Inr s),
     pathJoin = testJoin,
     pathDirname = testDirname,
     regexTest = (\<lambda>k s. Inr (containsLit k s)),
     regexReplace = replaceLit \<rparr>"

section \<open>Trees, locations and the two passes over extension points\<close>

lemma findAll_append: "findAll test (xs @ ys) = findAll test xs @ findAll test ys"
  by (induction xs) auto

lemma fillPoints_id_aux:
  "(findAll (isTagNamed (EXT_POINT_TAG opts)) xs = [] \<longrightarrow> map (fillPoints opts exts) xs = xs)"
  "(findAllNode (isTagNamed (EXT_POINT_TAG opts)) x = [] \<longrightarrow> fillPoints opts exts x = x)"
  by (induction "isTagNamed (EXT_POINT_TAG opts)" xs and "isTagNamed (EXT_POINT_TAG opts)" x
      rule: findAll_findAllNode.induct)
     (auto split: if_splits)

lemma retagPoints_id_aux:
  "(findAll (isTagNamed (EXT_POINT_TAG opts)) xs = [] \<longrightarrow> map (retagPoints opts) xs = xs)"
  "(findAllNode (isTagNamed (EXT_POINT_TAG opts)) x = [] \<longrightarrow> retagPoints opts x = x)"
  by (induction "isTagNamed (EXT_POINT_TAG opts)" xs and "isTagNamed (EXT_POINT_TAG opts)" x
      rule: findAll_findAllNode.induct)
     (auto split: if_splits)

lemma fillPoints_noPoints: "noPoints opts xs \<Longrightarrow> map (fillPoints opts exts) xs = xs"
  by (simp add: noPoints_def findDomElementsByTagName_def fillPoints_id_aux)

lemma retagPoints_noPoints: "noPoints opts xs \<Longrightarrow> map (retagPoints opts) xs = xs"
  by (simp add: noPoints_def findDomElementsByTagName_def retagPoints_id_aux)

lemma fillPoints_plug:
  "ctxFree opts c \<Longrightarrow> map (fillPoints opts exts) (plug c x) = plug c (fillPoints opts exts x)"
  by (induction c) (auto simp: fillPoints_noPoints)

lemma retagPoints_plug:
  "ctxFree opts c \<Longrightarrow> map (retagPoints opts) (plug c x) = plug c (retagPoints opts x)"
  by (induction c) (auto simp: retagPoints_noPoints)

lemma fillPoints_open_path:
  "pathOpen opts exts c \<Longrightarrow>
   map (fillPoints opts exts) (plug c x) = plug (mapCtx (fillPoints opts exts) c) (fillPoints opts exts x)"
  by (induction c) (auto split: if_splits)

lemma retagPoints_ctx:
  "map (retagPoints opts) (plug c x) = plug (retagCtx opts c) (retagPoints opts x)"
  by (induction c) auto

lemma points_of_plug:
  "ctxFree opts c \<Longrightarrow>
   findDomElementsByTagName (plug c x) (EXT_POINT_TAG opts)
     = findDomElementsByTagName [x] (EXT_POINT_TAG opts)"
  by (induction c) (auto simp: noPoints_def findDomElementsByTagName_def findAll_append)

lemma only_point:
  "ctxFree opts c \<Longrightarrow> noPoints opts D \<Longrightarrow>
   findDomElementsByTagName (plug c (Elem ''tag'' (EXT_POINT_TAG opts) a D)) (EXT_POINT_TAG opts)
     = [Elem ''tag'' (EXT_POINT_TAG opts) a D]"
  by (simp add: points_of_plug) (simp add: noPoints_def findDomElementsByTagName_def)

lemma retag_erases_aux:
  "EXT_POINT_TAG opts \<noteq> ''template'' \<Longrightarrow>
   findAll (isTagNamed (EXT_POINT_TAG opts)) (map (retagPoints opts) xs) = []"
  "EXT_POINT_TAG opts \<noteq> ''template'' \<Longrightarrow>
   findAllNode (isTagNamed (EXT_POINT_TAG opts)) (retagPoints opts x) = []"
  by (induction "isTagNamed (EXT_POINT_TAG opts)" xs and "isTagNamed (EXT_POINT_TAG opts)" x
      rule: findAll_findAllNode.induct)
     (auto split: if_splits)

lemma find_first:
  "\<forall>y\<in>set pre. \<not> Q y \<Longrightarrow> Q x \<Longrightarrow> find Q (pre @ x # post) = Some x"
  by (induction pre) auto

lemma find_none: "\<forall>y\<in>set xs. \<not> Q y \<Longrightarrow> find Q xs = None"
  by (induction xs) auto


lemma map_of_deleteKey: "map_of (deleteKey k a) k = None"
  by (induction a) (auto simp: deleteKey_def)

lemma findExtensions_top:
  assumes "currentDom = pre @ Elem t (EXTENSIONS_TAG opts) ca kids # post"
    and "\<forall>x\<in>set pre. \<not> isNamed (EXTENSIONS_TAG opts) x"
  shows "findExtensions opts currentDom = Some (filter (isNamed (EXTENSION_TAG opts)) kids)"
  using assms by (simp add: findExtensions_def find_first)

lemma findExtendBlock_first:
  assumes "map_of a (EXT_POINT_NAME_ATTR opts) = Some P"
    and "targets opts P block" and "\<forall>b\<in>set before. \<not> targets opts P b"
  shows "findExtendBlock opts (before @ block # after) a = Some block"
  using assms by (simp add: findExtendBlock_def targets_def find_first)

lemma findExtendBlock_none:
  assumes "map_of a (EXT_POINT_NAME_ATTR opts) = Some P"
    and "\<forall>b\<in>set extensions. \<not> targets opts P b"
  shows "findExtendBlock opts extensions a = None"
  using assms by (simp add: findExtendBlock_def targets_def find_none)

lemma resolveComponent_step:
  assumes "baseOf L opts aliases currentSource currPath
             = Some (currentDesc, currentTemplate, baseAbsPath, contents)"
  shows "resolveComponent (Suc n) L opts currentSource currPath aliases =
           (case resolveComponent n L opts contents (pathDirname L baseAbsPath) aliases of
              Pending \<Rightarrow> Pending
            | Rejected e \<Rightarrow> Rejected e
            | Resolved r \<Rightarrow> mergeWithBase L opts currentDesc currentTemplate baseAbsPath r)"
  using assms
  by (auto simp: baseOf_def baseRef_def split: sum.splits option.splits attrval.splits prod.splits)


lemma mergeWithBase_resolved:
  assumes "templateDom L (source r) = Some (baseDescriptor, baseTemplate, baseDom)"
    and "findExtensions opts (parseDOM L (content currentTemplate)) = Some extensions"
  shows "mergeWithBase L opts currentDesc currentTemplate baseAbsPath r =
           Resolved \<lparr> source = ''<template '' @ EXTENDABLE_ATTR opts @ ''>'' @ [CHR 0x0A] @ replicate 27 CHR '' ''
                        @ getOuterHTML L (map (fillPoints opts extensions) baseDom)
                        @ [CHR 0x0A] @ replicate 25 CHR '' '' @ ''</template> ''
                        @ [CHR 0x0A] @ replicate 25 CHR '' '' @ descriptorToHTML opts currentDesc,
                      ancestorsPaths = ancestorsPaths r @ [baseAbsPath] \<rparr>"
  using assms
  by (auto simp: mergeWithBase_def templateDom_def extendableTemplate_def Let_def
           split: sum.splits option.splits)

lemma getMergedCode_final:
  assumes "resolveComponent n L opts source0 currPath aliases = Resolved r"
    and "templateDom L (source r) = Some (parsed, t, finalDom)"
    and "truthyAttr (map_of (attrs t) (EXTENDABLE_ATTR opts))"
  shows "getMergedCode n L opts source0 currPath aliases =
           Resolved \<lparr> source = ''<template>'' @ [CHR 0x0A] @ replicate 20 CHR '' ''
                        @ getOuterHTML L (map (retagPoints opts) finalDom)
                        @ [CHR 0x0A] @ replicate 18 CHR '' '' @ ''</template> ''
                        @ [CHR 0x0A] @ replicate 18 CHR '' '' @ descriptorToHTML opts (stripScript parsed),
                      ancestorsPaths = ancestorsPaths r \<rparr>"
  using assms
  by (auto simp: getMergedCode_def templateDom_def stripScript_def finalTemplate_def Let_def
           split: sum.splits option.splits)

lemma fillPoints_point:
  assumes "findExtendBlock opts extensions a = Some (Elem t2 n2 ba C)"
  shows "fillPoints opts extensions (Elem ''tag'' (EXT_POINT_TAG opts) a D)
           = Elem ''tag'' ''template'' (deleteKey (EXT_POINT_NAME_ATTR opts) a) C"
  using assms by simp

lemma fillPoints_open:
  assumes "findExtendBlock opts extensions a = None"
  shows "fillPoints opts extensions (Elem ''tag'' (EXT_POINT_TAG opts) a D)
           = Elem ''tag'' (EXT_POINT_TAG opts) a (map (fillPoints opts extensions) D)"
  using assms by simp

lemma retagPoints_point:
  "retagPoints opts (Elem ''tag'' (EXT_POINT_TAG opts) a D)
     = Elem ''tag'' ''template'' (deleteKey (EXT_POINT_NAME_ATTR opts) a) (map (retagPoints opts) D)"
  by simp



lemma merge_open:
  assumes one: "pathOpen opts extensions c"
    and name: "map_of a (EXT_POINT_NAME_ATTR opts) = Some P"
    and none: "\<forall>b\<in>set extensions. \<not> targets opts P b"
  shows "map (fillPoints opts extensions) (plug c (Elem ''tag'' (EXT_POINT_TAG opts) a D))
           = plug (mapCtx (fillPoints opts extensions) c)
               (Elem ''tag'' (EXT_POINT_TAG opts) a (map (fillPoints opts extensions) D))"
  using fillPoints_open_path [OF one] fillPoints_open [OF findExtendBlock_none [OF name none]]
  by simp


section \<open>The text of the sections\<close>

lemma foldl_append_concat: "foldl (\<lambda>accum curr. accum @ f curr) s xs = s @ concat (map f xs)"
  by (induction xs arbitrary: s) auto

lemma blockToHTML_text:
  "jsString (blockToHTML (Some b))
     = ''<'' @ type b @ '' ''
       @ concat (map (\<lambda>kv. '' '' @ fst kv @ ''='' @ [CHR 0x22] @ showAttrval (snd kv)
                              @ [CHR 0x22] @ '' '') (attrs b))
       @ ''>'' @ content b @ ''</'' @ type b @ ''>''"
proof -
  have "attrToHtmlAttr = (\<lambda>kv. '' '' @ fst kv @ ''='' @ [CHR 0x22] @ showAttrval (snd kv)
                              @ [CHR 0x22] @ '' '')"
    by (rule ext) (simp add: attrToHtmlAttr_def)
  then show ?thesis
    by (simp add: foldl_append_concat)
qed

lemma descriptorToHTML_text:
  "descriptorToHTML opts d =
     (\<lambda>d. joinWith [CHR 0x0A]
               (map ((\<lambda>b. ''<'' @ type b @ '' ''        @ concat (map (\<lambda>kv. '' '' @ fst kv @ ''='' @ [CHR 0x22] @ showAttrval (snd kv)                               @ [CHR 0x22] @ '' '') (attrs b))        @ ''>'' @ content b @ ''</'' @ type b @ ''>'')) (filter (\<lambda>cb. type cb \<noteq> EXTENSION_TAG opts) (customBlocks d)))
             @ (case script d of None \<Rightarrow> ''undefined'' | Some b \<Rightarrow> ((\<lambda>b. ''<'' @ type b @ '' ''        @ concat (map (\<lambda>kv. '' '' @ fst kv @ ''='' @ [CHR 0x22] @ showAttrval (snd kv)                               @ [CHR 0x22] @ '' '') (attrs b))        @ ''>'' @ content b @ ''</'' @ type b @ ''>'')) b)
             @ joinWith [CHR 0x0A] (map ((\<lambda>b. ''<'' @ type b @ '' ''        @ concat (map (\<lambda>kv. '' '' @ fst kv @ ''='' @ [CHR 0x22] @ showAttrval (snd kv)                               @ [CHR 0x22] @ '' '') (attrs b))        @ ''>'' @ content b @ ''</'' @ type b @ ''>'')) (styles d))) d"
proof -
  have each: "(\<lambda>cb. jsString (blockToHTML (Some cb)))
      = (\<lambda>b. ''<'' @ type b @ '' ''
               @ concat (map (\<lambda>kv. '' '' @ fst kv @ ''='' @ [CHR 0x22] @ showAttrval (snd kv)
                                      @ [CHR 0x22] @ '' '') (attrs b))
               @ ''>'' @ content b @ ''</'' @ type b @ ''>'')"
    by (rule ext) (rule blockToHTML_text)
  show ?thesis
  proof (cases "script d")
    case None
    then show ?thesis
      unfolding descriptorToHTML_def each by simp
  next
    case (Some b)
    then show ?thesis
      unfolding descriptorToHTML_def each by (simp only: blockToHTML_text option.case)
  qed
qed

lemma templateDom_parts:
  "templateDom L src = Some (d, t, nodes) \<Longrightarrow>
   toDescriptor L src = Inr d \<and> template d = Some t \<and> nodes = parseDOM L (content t)"
  by (auto simp: templateDom_def split: sum.splits option.splits)

lemma templateDom_of_parts:
  "toDescriptor L src = Inr d \<Longrightarrow> template d = Some t \<Longrightarrow>
   templateDom L src = Some (d, t, parseDOM L (content t))"
  by (simp add: templateDom_def)

section \<open>The loops on a store\<close>

text \<open>
  The recursions \<open>fillPoints\<close> and \<open>retagPoints\<close> are the trees seen after the loops of
  the source have run over the list that \<^verbatim>\<open>findAll\<close> collected, each visit writing the
  cell of the node it is given.
\<close>

lemma under_refl: "under q q"
  by (simp add: under_def)

lemma under_child: "under (q @ [j]) r \<Longrightarrow> under q r"
  by (auto simp: under_def)

lemma under_sibling: "under (p @ [i]) r \<Longrightarrow> under (p @ [j]) r \<Longrightarrow> i = j"
  by (auto simp: under_def)

lemma under_not_self: "\<not> under (q @ [j]) q"
  by (auto simp: under_def)

lemma locate_map_snd:
  "map snd (locate test p i xs) = findAll test xs"
  "map snd (locateNode test q x) = findAllNode test x"
  by (induction test p i xs and test q x rule: locate_locateNode.induct) auto

lemma locate_under:
  "(r, y) \<in> set (locate test p i xs) \<Longrightarrow> \<exists>j\<ge>i. under (p @ [j]) r"
  "(r, y) \<in> set (locateNode test q x) \<Longrightarrow> under q r"
proof (induction test p i xs and test q x rule: locate_locateNode.induct)
  case (2 test p i x xs)
  from 2(3) consider "(r, y) \<in> set (locateNode test (p @ [i]) x)"
    | "(r, y) \<in> set (locate test p (Suc i) xs)" by auto
  then show ?case
  proof cases
    case 1
    then have "under (p @ [i]) r" by (rule 2(1))
    then show ?thesis by blast
  next
    case 2
    then obtain j where "Suc i \<le> j" "under (p @ [j]) r" using "2.IH"(2) by blast
    then show ?thesis by (meson Suc_leD)
  qed
next
  case (4 test q t n a cs)
  from 4(2) consider "r = q" | "(r, y) \<in> set (locate test q 0 cs)"
    by (auto split: if_splits)
  then show ?case
  proof cases
    case 1
    then show ?thesis by (simp add: under_refl)
  next
    case 2
    then obtain j where "under (q @ [j]) r" using 4(1) by blast
    then show ?thesis by (rule under_child)
  qed
qed auto

lemma view_cong:
  "(\<And>r j. i \<le> j \<Longrightarrow> under (p @ [j]) r \<Longrightarrow> s r = s' r) \<Longrightarrow> view s p i xs = view s' p i xs"
  "(\<And>r. under q r \<Longrightarrow> s r = s' r) \<Longrightarrow> viewNode s q x = viewNode s' q x"
proof (induction s p i xs and s q x rule: view_viewNode.induct)
  case (2 s p i x xs)
  have "viewNode s (p @ [i]) x = viewNode s' (p @ [i]) x"
    by (rule 2(1)) (rule 2(3) [OF le_refl])
  moreover have "view s p (Suc i) xs = view s' p (Suc i) xs"
    by (rule 2(2)) (rule 2(3), simp_all)
  ultimately show ?case by simp
next
  case (4 s q t n a cs)
  have "s q = s' q" by (rule 4(2) [OF under_refl])
  moreover have "view s q 0 cs = view s' q 0 cs"
    by (rule 4(1)) (rule 4(2), erule under_child)
  ultimately show ?case by simp
qed auto

lemma fillVisit_elsewhere: "r \<noteq> fst qx \<Longrightarrow> fillVisit opts exts s qx r = s r"
  by (simp add: fillVisit_def split: option.splits)

lemma retagVisit_elsewhere: "r \<noteq> fst qx \<Longrightarrow> retagVisit opts s qx r = s r"
  by (simp add: retagVisit_def)

lemma fill_untouched:
  "r \<notin> fst ` set pts \<Longrightarrow> foldl (fillVisit opts exts) s pts r = s r"
  by (induction pts arbitrary: s) (auto simp: fillVisit_elsewhere)

lemma retag_untouched:
  "r \<notin> fst ` set pts \<Longrightarrow> foldl (retagVisit opts) s pts r = s r"
  by (induction pts arbitrary: s) (auto simp: retagVisit_elsewhere)

lemma beyond_node:
  assumes "under (p @ [i]) r"
  shows "r \<notin> fst ` set (locate test p (Suc i) xs)"
proof
  assume "r \<in> fst ` set (locate test p (Suc i) xs)"
  then obtain y where "(r, y) \<in> set (locate test p (Suc i) xs)" by auto
  then obtain j where j: "Suc i \<le> j" "under (p @ [j]) r" using locate_under(1) by blast
  from under_sibling [OF assms j(2)] j(1) show False by simp
qed

lemma before_forest:
  assumes "Suc i \<le> j" and "under (p @ [j]) r"
  shows "r \<notin> fst ` set (locateNode test (p @ [i]) x)"
proof
  assume "r \<in> fst ` set (locateNode test (p @ [i]) x)"
  then obtain y where "(r, y) \<in> set (locateNode test (p @ [i]) x)" by auto
  then have "under (p @ [i]) r" by (rule locate_under(2))
  from under_sibling [OF this assms(2)] assms(1) show False by simp
qed

lemma above_children: "q \<notin> fst ` set (locate test q 0 cs)"
proof
  assume "q \<in> fst ` set (locate test q 0 cs)"
  then obtain y where "(q, y) \<in> set (locate test q 0 cs)" by auto
  then obtain j where "under (q @ [j]) q" using locate_under(1) by blast
  then show False by (simp add: under_not_self)
qed

lemma fill_store:
  "(\<And>r j. i \<le> j \<Longrightarrow> under (p @ [j]) r \<Longrightarrow> s r = None) \<Longrightarrow>
   view (foldl (fillVisit opts exts) s (locate (isTagNamed (EXT_POINT_TAG opts)) p i xs)) p i xs
     = map (fillPoints opts exts) xs"
  "(\<And>r. under q r \<Longrightarrow> s r = None) \<Longrightarrow>
   viewNode (foldl (fillVisit opts exts) s (locateNode (isTagNamed (EXT_POINT_TAG opts)) q x)) q x
     = fillPoints opts exts x"
proof (induction "isTagNamed (EXT_POINT_TAG opts)" p i xs and "isTagNamed (EXT_POINT_TAG opts)" q x
       arbitrary: s and s rule: locate_locateNode.induct)
  case (1 p i)
  show ?case by simp
next
  case (2 p i x xs)
  let ?v = "fillVisit opts exts"
  let ?A = "locateNode (isTagNamed (EXT_POINT_TAG opts)) (p @ [i]) x"
  let ?B = "locate (isTagNamed (EXT_POINT_TAG opts)) p (Suc i) xs"
  let ?S = "foldl ?v (foldl ?v s ?A) ?B"
  have "viewNode ?S (p @ [i]) x = viewNode (foldl ?v s ?A) (p @ [i]) x"
    by (rule view_cong(2)) (rule fill_untouched [OF beyond_node])
  also have "\<dots> = fillPoints opts exts x"
    by (rule "2.hyps"(1)) (rule "2.prems" [OF le_refl])
  finally have head: "viewNode ?S (p @ [i]) x = fillPoints opts exts x" .
  have tail: "view ?S p (Suc i) xs = map (fillPoints opts exts) xs"
  proof (rule "2.hyps"(2))
    fix r j
    assume j: "Suc i \<le> j" and r: "under (p @ [j]) r"
    have "foldl ?v s ?A r = s r"
      by (rule fill_untouched [OF before_forest [OF j r]])
    also have "\<dots> = None"
      using "2.prems" [of j r] j r by simp
    finally show "foldl ?v s ?A r = None" .
  qed
  show ?case using head tail by simp
next
  case (3 q t d)
  show ?case by simp
next
  case (4 q t n a cs)
  let ?v = "fillVisit opts exts"
  let ?x = "Elem t n a cs"
  let ?B = "locate (isTagNamed (EXT_POINT_TAG opts)) q 0 cs"
  have here: "s q = None" by (rule "4.prems" [OF under_refl])
  have deeper: "\<And>r j. under (q @ [j]) r \<Longrightarrow> s r = None"
    by (rule "4.prems") (erule under_child)
  show ?case
  proof (cases "isTagNamed (EXT_POINT_TAG opts) ?x")
    case False
    then have run: "foldl ?v s (locateNode (isTagNamed (EXT_POINT_TAG opts)) q ?x) = foldl ?v s ?B"
      by auto
    have cell: "foldl ?v s ?B q = None"
      using fill_untouched [OF above_children] here by simp
    have kids: "view (foldl ?v s ?B) q 0 cs = map (fillPoints opts exts) cs"
      by (rule "4.hyps") (rule deeper)
    have "viewNode (foldl ?v s ?B) q ?x = Elem t n a (map (fillPoints opts exts) cs)"
      by (simp add: cell kids)
    also have "\<dots> = fillPoints opts exts ?x"
      using False by auto
    finally show ?thesis unfolding run .
  next
    case True
    then have point: "t = ''tag''" "n = EXT_POINT_TAG opts" by simp_all
    have pts: "locateNode (isTagNamed (EXT_POINT_TAG opts)) q ?x = (q, ?x) # ?B"
      using True by simp
    have now: "attribsNow s (q, ?x) = a" by (simp add: attribsNow_def here)
    show ?thesis
    proof (cases "findExtendBlock opts exts a")
      case None
      have same: "?v s (q, ?x) = s"
        by (simp add: fillVisit_def now None)
      have run: "foldl ?v s (locateNode (isTagNamed (EXT_POINT_TAG opts)) q ?x) = foldl ?v s ?B"
        by (simp only: pts foldl_Cons same)
      have cell: "foldl ?v s ?B q = None"
        using fill_untouched [OF above_children] here by simp
      have kids: "view (foldl ?v s ?B) q 0 cs = map (fillPoints opts exts) cs"
        by (rule "4.hyps") (rule deeper)
      have "viewNode (foldl ?v s ?B) q ?x = Elem t n a (map (fillPoints opts exts) cs)"
        by (simp add: cell kids)
      also have "\<dots> = fillPoints opts exts ?x"
        using None point by simp
      finally show ?thesis unfolding run .
    next
      case (Some extendBlock)
      let ?s1 = "s(q \<mapsto> (''template'', deleteKey (EXT_POINT_NAME_ATTR opts) a,
                          Some (children extendBlock)))"
      have written: "?v s (q, ?x) = ?s1"
        by (simp add: fillVisit_def now Some)
      have run: "foldl ?v s (locateNode (isTagNamed (EXT_POINT_TAG opts)) q ?x) = foldl ?v ?s1 ?B"
        by (simp only: pts foldl_Cons written)
      have "foldl ?v ?s1 ?B q = ?s1 q"
        by (rule fill_untouched [OF above_children])
      then have cell: "foldl ?v ?s1 ?B q
                    = Some (''template'', deleteKey (EXT_POINT_NAME_ATTR opts) a,
                            Some (children extendBlock))"
        by simp
      have "viewNode (foldl ?v ?s1 ?B) q ?x
              = Elem t ''template'' (deleteKey (EXT_POINT_NAME_ATTR opts) a) (children extendBlock)"
        by (simp add: cell)
      also have "\<dots> = fillPoints opts exts ?x"
        using Some point by simp
      finally show ?thesis unfolding run .
    qed
  qed
qed

theorem forEach_fillPoints:
  "view (foldl (fillVisit opts extensions) Map.empty
           (locate (isTagNamed (EXT_POINT_TAG opts)) [] 0 baseDom)) [] 0 baseDom
     = map (fillPoints opts extensions) baseDom"
  by (rule fill_store(1)) simp

lemma retag_store:
  "(\<And>r j. i \<le> j \<Longrightarrow> under (p @ [j]) r \<Longrightarrow> s r = None) \<Longrightarrow>
   view (foldl (retagVisit opts) s (locate (isTagNamed (EXT_POINT_TAG opts)) p i xs)) p i xs
     = map (retagPoints opts) xs"
  "(\<And>r. under q r \<Longrightarrow> s r = None) \<Longrightarrow>
   viewNode (foldl (retagVisit opts) s (locateNode (isTagNamed (EXT_POINT_TAG opts)) q x)) q x
     = retagPoints opts x"
proof (induction "isTagNamed (EXT_POINT_TAG opts)" p i xs and "isTagNamed (EXT_POINT_TAG opts)" q x
       arbitrary: s and s rule: locate_locateNode.induct)
  case (1 p i)
  show ?case by simp
next
  case (2 p i x xs)
  let ?v = "retagVisit opts"
  let ?A = "locateNode (isTagNamed (EXT_POINT_TAG opts)) (p @ [i]) x"
  let ?B = "locate (isTagNamed (EXT_POINT_TAG opts)) p (Suc i) xs"
  let ?S = "foldl ?v (foldl ?v s ?A) ?B"
  have "viewNode ?S (p @ [i]) x = viewNode (foldl ?v s ?A) (p @ [i]) x"
    by (rule view_cong(2)) (rule retag_untouched [OF beyond_node])
  also have "\<dots> = retagPoints opts x"
    by (rule "2.hyps"(1)) (rule "2.prems" [OF le_refl])
  finally have head: "viewNode ?S (p @ [i]) x = retagPoints opts x" .
  have tail: "view ?S p (Suc i) xs = map (retagPoints opts) xs"
  proof (rule "2.hyps"(2))
    fix r j
    assume j: "Suc i \<le> j" and r: "under (p @ [j]) r"
    have "foldl ?v s ?A r = s r"
      by (rule retag_untouched [OF before_forest [OF j r]])
    also have "\<dots> = None"
      using "2.prems" [of j r] j r by simp
    finally show "foldl ?v s ?A r = None" .
  qed
  show ?case using head tail by simp
next
  case (3 q t d)
  show ?case by simp
next
  case (4 q t n a cs)
  let ?v = "retagVisit opts"
  let ?x = "Elem t n a cs"
  let ?B = "locate (isTagNamed (EXT_POINT_TAG opts)) q 0 cs"
  have here: "s q = None" by (rule "4.prems" [OF under_refl])
  have deeper: "\<And>r j. under (q @ [j]) r \<Longrightarrow> s r = None"
    by (rule "4.prems") (erule under_child)
  show ?case
  proof (cases "isTagNamed (EXT_POINT_TAG opts) ?x")
    case False
    then have run: "foldl ?v s (locateNode (isTagNamed (EXT_POINT_TAG opts)) q ?x) = foldl ?v s ?B"
      by auto
    have cell: "foldl ?v s ?B q = None"
      using retag_untouched [OF above_children] here by simp
    have kids: "view (foldl ?v s ?B) q 0 cs = map (retagPoints opts) cs"
      by (rule "4.hyps") (rule deeper)
    have "viewNode (foldl ?v s ?B) q ?x = Elem t n a (map (retagPoints opts) cs)"
      by (simp add: cell kids)
    also have "\<dots> = retagPoints opts ?x"
      using False by auto
    finally show ?thesis unfolding run .
  next
    case True
    then have point: "t = ''tag''" "n = EXT_POINT_TAG opts" by simp_all
    let ?s1 = "s(q \<mapsto> (''template'', deleteKey (EXT_POINT_NAME_ATTR opts) a, None))"
    have pts: "locateNode (isTagNamed (EXT_POINT_TAG opts)) q ?x = (q, ?x) # ?B"
      using True by simp
    have written: "?v s (q, ?x) = ?s1"
      by (simp add: retagVisit_def attribsNow_def here)
    have run: "foldl ?v s (locateNode (isTagNamed (EXT_POINT_TAG opts)) q ?x) = foldl ?v ?s1 ?B"
      by (simp only: pts foldl_Cons written)
    have "foldl ?v ?s1 ?B q = ?s1 q"
      by (rule retag_untouched [OF above_children])
    then have cell: "foldl ?v ?s1 ?B q
                  = Some (''template'', deleteKey (EXT_POINT_NAME_ATTR opts) a, None)"
      by simp
    have kids: "view (foldl ?v ?s1 ?B) q 0 cs = map (retagPoints opts) cs"
    proof (rule "4.hyps")
      fix r j
      assume "under (q @ [j]) r"
      then have "s r = None" "r \<noteq> q"
        using deeper under_not_self by auto
      then show "?s1 r = None" by simp
    qed
    have "viewNode (foldl ?v ?s1 ?B) q ?x
            = Elem t ''template'' (deleteKey (EXT_POINT_NAME_ATTR opts) a) (map (retagPoints opts) cs)"
      by (simp add: cell kids)
    also have "\<dots> = retagPoints opts ?x"
      using point by simp
    finally show ?thesis unfolding run .
  qed
qed

theorem forEach_retagPoints:
  "view (foldl (retagVisit opts) Map.empty
           (locate (isTagNamed (EXT_POINT_TAG opts)) [] 0 finalDom)) [] 0 finalDom
     = map (retagPoints opts) finalDom"
  by (rule retag_store(1)) simp

lemma locate_findDomElementsByTagName:
  "map snd (locate (isTagNamed tag) [] 0 nodes) = findDomElementsByTagName nodes tag"
  by (simp add: findDomElementsByTagName_def locate_map_snd)

section \<open>The base case\<close>

text \<open>
  C4. A component whose descriptor has no template, or whose template has no \<^verbatim>\<open>extends\<close>
  attribute, resolves to its own source, unchanged, with an empty list of ancestors.
  This takes a single call (a recursion bound of one) and holds whatever reading a file
  would return: the base case does not recurse and does not read.
\<close>

theorem base_case_identity:
  assumes "toDescriptor L currentSource = Inr currentDesc"
    and "template currentDesc = None
         \<or> (\<exists>t. template currentDesc = Some t \<and> map_of (attrs t) (EXTENDS_ATTR opts) = None)"
  shows "resolveComponent (Suc n) (L \<lparr> readFile := rf \<rparr>) opts currentSource currPath aliases
           = Resolved \<lparr> source = currentSource, ancestorsPaths = [] \<rparr>"
proof -
  from assms(2) have "extendsAttr opts currentDesc = None"
    by (auto simp: extendsAttr_def)
  with assms(1) show ?thesis by simp
qed

theorem base_case_identity_witness:
  "resolveComponent (Suc 0) (testLibs \<lparr> readFile := (\<lambda>p. Inl ''unreadable'') \<rparr>) defaultOptions
     rootSrc ''/src'' []
   = Resolved \<lparr> source = rootSrc, ancestorsPaths = [] \<rparr>"
proof -
  have parsed: "toDescriptor testLibs rootSrc = Inr rootDesc"
    by code_simp
  have plain: "template rootDesc = None
      \<or> (\<exists>t. template rootDesc = Some t \<and> map_of (attrs t) (EXTENDS_ATTR defaultOptions) = None)"
    by (simp add: rootDesc_def sfc_def)
  show ?thesis
    by (rule base_case_identity [OF parsed plain])
qed

section \<open>Filling an extension point\<close>

text \<open>
  C1, amended. The resolved base has exactly one extension point, named \<open>P\<close>, with the
  children \<open>D\<close>, at the location \<open>c\<close> of its template's tree. The derived component's
  template has an extensions container as a top-level node, the first top-level node
  with the container's name, and among the extension blocks of that container the first
  that targets \<open>P\<close> has the children \<open>C\<close>. Then \<^verbatim>\<open>resolveComponent\<close> returns the source
  whose template is marked extendable and holds the serialised tree with, at the location
  \<open>c\<close>, a \<^verbatim>\<open>template\<close> element that has the children \<open>C\<close> and the point's attributes
  without the name; \<open>D\<close> is gone. The base's path is appended to the base's own ancestors.
\<close>

theorem single_level_merge:
  assumes ext: "baseOf L opts aliases currentSource currPath
                  = Some (currentDesc, currentTemplate, baseAbsPath, contents)"
    and base: "resolveComponent n L opts contents (pathDirname L baseAbsPath) aliases = Resolved r"
    and bdom: "templateDom L (source r)
                 = Some (baseDescriptor, baseTemplate, plug c (Elem ''tag'' (EXT_POINT_TAG opts) a D))"
    and one: "ctxFree opts c" "noPoints opts D"
    and name: "map_of a (EXT_POINT_NAME_ATTR opts) = Some P"
    and cur: "parseDOM L (content currentTemplate) = pre @ Elem t1 (EXTENSIONS_TAG opts) ca kids # post"
             "\<forall>x\<in>set pre. \<not> isNamed (EXTENSIONS_TAG opts) x"
    and blk: "filter (isNamed (EXTENSION_TAG opts)) kids = before @ Elem t2 n2 ba C # after"
             "map_of ba (EXT_POINT_REF_ATTR opts) = Some P"
             "\<forall>b\<in>set before. \<not> targets opts P b"
  shows "resolveComponent (Suc n) L opts currentSource currPath aliases =
           Resolved \<lparr> source =
                          ''<template '' @ EXTENDABLE_ATTR opts @ ''>'' @ [CHR 0x0A] @ replicate 27 CHR '' ''
                          @ getOuterHTML L
                              (plug c (Elem ''tag'' ''template'' (deleteKey (EXT_POINT_NAME_ATTR opts) a) C))
                          @ [CHR 0x0A] @ replicate 25 CHR '' '' @ ''</template> ''
                          @ [CHR 0x0A] @ replicate 25 CHR '' '' @ descriptorToHTML opts currentDesc,
                      ancestorsPaths = ancestorsPaths r @ [baseAbsPath] \<rparr>"
proof -
  have exts: "findExtensions opts (parseDOM L (content currentTemplate))
                = Some (before @ Elem t2 n2 ba C # after)"
    using findExtensions_top [OF cur] blk(1) by simp
  have "targets opts P (Elem t2 n2 ba C)"
    using blk(2) by (simp add: targets_def)
  then have found: "findExtendBlock opts (before @ Elem t2 n2 ba C # after) a = Some (Elem t2 n2 ba C)"
    using findExtendBlock_first [OF name _ blk(3)] by simp
  have "map (fillPoints opts (before @ Elem t2 n2 ba C # after))
          (plug c (Elem ''tag'' (EXT_POINT_TAG opts) a D))
        = plug c (Elem ''tag'' ''template'' (deleteKey (EXT_POINT_NAME_ATTR opts) a) C)"
    using fillPoints_plug [OF one(1)] fillPoints_point [OF found] by simp
  then show ?thesis
    using resolveComponent_step [OF ext] base mergeWithBase_resolved [OF bdom exts] by simp
qed

theorem single_level_merge_witness:
  "resolveComponent (Suc (Suc 0)) testLibs defaultOptions childSrc ''/src'' [] =
     Resolved \<lparr> source =
       ''<template extendable>\<newline>                           <div><template>C</template></div>\<newline>                         </template> \<newline>                         <script >K</script>'',
       ancestorsPaths = [''/src/Root.vue''] \<rparr>"
proof -
  let ?tmpl = "\<lparr> type = ''template'', attrs = [(''extends'', Str ''./Root.vue'')], content = fillContent \<rparr>"
  let ?rtmpl = "\<lparr> type = ''template'', attrs = [], content = rootContent \<rparr>"
  let ?c = "Sub [] ''tag'' ''div'' [] (Top [] []) []"
  have ext: "baseOf testLibs defaultOptions [] childSrc ''/src''
               = Some (childDesc, ?tmpl, ''/src/Root.vue'', rootSrc)"
    by code_simp
  have base: "resolveComponent (Suc 0) testLibs defaultOptions rootSrc
                (pathDirname testLibs ''/src/Root.vue'') []
              = Resolved \<lparr> source = rootSrc, ancestorsPaths = [] \<rparr>"
    by code_simp
  have bdom: "templateDom testLibs (source \<lparr> source = rootSrc, ancestorsPaths = [] \<rparr>)
      = Some (rootDesc, ?rtmpl,
              plug ?c (Elem ''tag'' (EXT_POINT_TAG defaultOptions) [(''name'', ''P'')] [Data ''text'' ''D'']))"
    by code_simp
  have one: "ctxFree defaultOptions ?c" "noPoints defaultOptions [Data ''text'' ''D'']"
    by code_simp+
  have name: "map_of [(''name'', ''P'')] (EXT_POINT_NAME_ATTR defaultOptions) = Some ''P''"
    by code_simp
  have cur: "parseDOM testLibs (content ?tmpl)
      = [] @ Elem ''tag'' (EXTENSIONS_TAG defaultOptions) []
               [Elem ''tag'' ''extension'' [(''point'', ''P'')] [Data ''text'' ''C'']] # []"
    by code_simp
  have first: "\<forall>x\<in>set []. \<not> isNamed (EXTENSIONS_TAG defaultOptions) x"
    by simp
  have blk: "filter (isNamed (EXTENSION_TAG defaultOptions))
               [Elem ''tag'' ''extension'' [(''point'', ''P'')] [Data ''text'' ''C'']]
             = [] @ Elem ''tag'' ''extension'' [(''point'', ''P'')] [Data ''text'' ''C''] # []"
    by code_simp
  have ref: "map_of [(''point'', ''P'')] (EXT_POINT_REF_ATTR defaultOptions) = Some ''P''"
    by code_simp
  have none: "\<forall>b\<in>set []. \<not> targets defaultOptions ''P'' b"
    by simp
  have "resolveComponent (Suc (Suc 0)) testLibs defaultOptions childSrc ''/src'' [] =
     Resolved \<lparr> source =
         ''<template '' @ EXTENDABLE_ATTR defaultOptions @ ''>'' @ [CHR 0x0A] @ replicate 27 CHR '' ''
         @ getOuterHTML testLibs
             (plug ?c (Elem ''tag'' ''template''
                         (deleteKey (EXT_POINT_NAME_ATTR defaultOptions) [(''name'', ''P'')])
                         [Data ''text'' ''C'']))
         @ [CHR 0x0A] @ replicate 25 CHR '' '' @ ''</template> ''
         @ [CHR 0x0A] @ replicate 25 CHR '' '' @ descriptorToHTML defaultOptions childDesc,
       ancestorsPaths = ancestorsPaths \<lparr> source = rootSrc, ancestorsPaths = [] \<rparr> @ [''/src/Root.vue''] \<rparr>"
    by (rule single_level_merge [OF ext base bdom one name cur first blk ref none])
  also have "\<dots> = Resolved \<lparr> source =
       ''<template extendable>\<newline>                           <div><template>C</template></div>\<newline>                         </template> \<newline>                         <script >K</script>'',
       ancestorsPaths = [''/src/Root.vue''] \<rparr>"
    by code_simp
  finally show ?thesis .
qed

text \<open>
  The claim as stated asks only for an extensions container with a block for \<open>P\<close> in
  the derived template. Three derived components of \<^verbatim>\<open>Root\<close> (one point \<^verbatim>\<open>P\<close> with the
  default content \<^verbatim>\<open>D\<close>) have one, with a block for \<^verbatim>\<open>P\<close> whose content is \<^verbatim>\<open>C\<close>, and are
  not merged as the claim says. In \<^verbatim>\<open>NestedFill\<close> the container is inside a \<^verbatim>\<open>div\<close>: the
  lookup among the top-level nodes finds nothing and the promise is rejected. In
  \<^verbatim>\<open>TwoBlocks\<close> a block for \<^verbatim>\<open>P\<close> with the content \<^verbatim>\<open>X\<close> comes first: the merged template has
  \<^verbatim>\<open>X\<close> in the place of the point. In \<^verbatim>\<open>TwoContainers\<close> an empty container comes first: the
  point stays as it was, with \<^verbatim>\<open>D\<close>.
\<close>

theorem single_level_merge_counterexample:
  "templateDom testLibs rootSrc
     = Some (rootDesc, \<lparr> type = ''template'', attrs = [], content = rootContent \<rparr>,
             [Elem ''tag'' ''div'' []
                [Elem ''tag'' ''extension-point'' [(''name'', ''P'')] [Data ''text'' ''D'']]])
   \<and> baseOf testLibs defaultOptions [] nestedFillSrc ''/src''
     = Some (nestedFillDesc,
             \<lparr> type = ''template'', attrs = [(''extends'', Str ''./Root.vue'')], content = nestedFillContent \<rparr>,
             ''/src/Root.vue'', rootSrc)
   \<and> parseDOM testLibs nestedFillContent
     = [Elem ''tag'' ''div'' [] [Elem ''tag'' ''extensions'' [] [Elem ''tag'' ''extension'' [(''point'', ''P'')] [Data ''text'' ''C'']]]]
   \<and> resolveComponent (Suc (Suc 0)) testLibs defaultOptions nestedFillSrc ''/src'' []
     = Rejected (TypeError ''Cannot read property children of undefined'')
   \<and> baseOf testLibs defaultOptions [] twoBlocksSrc ''/src''
     = Some (twoBlocksDesc,
             \<lparr> type = ''template'', attrs = [(''extends'', Str ''./Root.vue'')], content = twoBlocksContent \<rparr>,
             ''/src/Root.vue'', rootSrc)
   \<and> parseDOM testLibs twoBlocksContent
     = [Elem ''tag'' ''extensions'' [] [Elem ''tag'' ''extension'' [(''point'', ''P'')] [Data ''text'' ''X''], Elem ''tag'' ''extension'' [(''point'', ''P'')] [Data ''text'' ''C'']]]
   \<and> resolveComponent (Suc (Suc 0)) testLibs defaultOptions twoBlocksSrc ''/src'' []
     = Resolved \<lparr> source =
         ''<template extendable>\<newline>                           <div><template>X</template></div>\<newline>                         </template> \<newline>                         <script >T</script>'',
         ancestorsPaths = [''/src/Root.vue''] \<rparr>
   \<and> baseOf testLibs defaultOptions [] twoContainersSrc ''/src''
     = Some (twoContainersDesc,
             \<lparr> type = ''template'', attrs = [(''extends'', Str ''./Root.vue'')], content = twoContainersContent \<rparr>,
             ''/src/Root.vue'', rootSrc)
   \<and> parseDOM testLibs twoContainersContent
     = [Elem ''tag'' ''extensions'' [] [], Elem ''tag'' ''extensions'' [] [Elem ''tag'' ''extension'' [(''point'', ''P'')] [Data ''text'' ''C'']]]
   \<and> resolveComponent (Suc (Suc 0)) testLibs defaultOptions twoContainersSrc ''/src'' []
     = Resolved \<lparr> source =
         ''<template extendable>\<newline>                           <div><extension-point name='' @ [CHR 0x22] @ ''P'' @ [CHR 0x22] @ ''>D</extension-point></div>\<newline>                         </template> \<newline>                         <script >U</script>'',
         ancestorsPaths = [''/src/Root.vue''] \<rparr>"
  by code_simp

section \<open>A component without an extensions container\<close>

lemma findExtensions_none:
  assumes "\<forall>x\<in>set currentDom. \<not> isNamed (EXTENSIONS_TAG opts) x"
  shows "findExtensions opts currentDom = None"
  using assms by (simp add: findExtensions_def find_none)

lemma mergeWithBase_no_container:
  assumes "findExtensions opts (parseDOM L (content currentTemplate)) = None"
  shows "mergeWithBase L opts currentDesc currentTemplate baseAbsPath r \<noteq> Resolved x"
  using assms by (auto simp: mergeWithBase_def Let_def split: sum.splits option.splits)

lemma mergeWithBase_typeError:
  assumes "templateDom L (source r) = Some (baseDescriptor, baseTemplate, baseDom)"
    and "findExtensions opts (parseDOM L (content currentTemplate)) = None"
  shows "mergeWithBase L opts currentDesc currentTemplate baseAbsPath r
           = Rejected (TypeError ''Cannot read property children of undefined'')"
  using assms
  by (auto simp: mergeWithBase_def templateDom_def Let_def split: sum.splits option.splits)

text \<open>
  C10. A component that extends a base, and whose template has no node named with the
  extensions tag among its top-level nodes, is rejected: once the base is resolved and
  its template parsed, the lookup of the container gives \<^verbatim>\<open>undefined\<close> and reading its
  \<^verbatim>\<open>children\<close> throws. No recursion bound makes the component resolve, so the merge
  with every point left open does not happen. The hypothesis is about the top-level
  nodes only: a container deeper in the tree does not count.
\<close>

theorem missing_container_rejects:
  assumes ext: "baseOf L opts aliases currentSource currPath
                  = Some (currentDesc, currentTemplate, baseAbsPath, contents)"
    and base: "resolveComponent n L opts contents (pathDirname L baseAbsPath) aliases = Resolved r"
    and bdom: "templateDom L (source r) = Some (baseDescriptor, baseTemplate, baseDom)"
    and none: "\<forall>x\<in>set (parseDOM L (content currentTemplate)). \<not> isNamed (EXTENSIONS_TAG opts) x"
  shows "resolveComponent (Suc n) L opts currentSource currPath aliases
           = Rejected (TypeError ''Cannot read property children of undefined'')
         \<and> (\<forall>m x. resolveComponent m L opts currentSource currPath aliases \<noteq> Resolved x)"
proof
  have lookup: "findExtensions opts (parseDOM L (content currentTemplate)) = None"
    by (rule findExtensions_none [OF none])
  show "resolveComponent (Suc n) L opts currentSource currPath aliases
          = Rejected (TypeError ''Cannot read property children of undefined'')"
    using resolveComponent_step [OF ext] base mergeWithBase_typeError [OF bdom lookup] by simp
  show "\<forall>m x. resolveComponent m L opts currentSource currPath aliases \<noteq> Resolved x"
  proof (intro allI)
    fix m x
    show "resolveComponent m L opts currentSource currPath aliases \<noteq> Resolved x"
    proof (cases m)
      case 0
      then show ?thesis by simp
    next
      case (Suc k)
      then show ?thesis
        using resolveComponent_step [OF ext, of k] mergeWithBase_no_container [OF lookup]
        by (auto split: promise.splits)
    qed
  qed
qed

theorem missing_container_rejects_witness:
  "resolveComponent (Suc (Suc 0)) testLibs defaultOptions bareSrc ''/src'' []
     = Rejected (TypeError ''Cannot read property children of undefined'')
   \<and> (\<forall>m x. resolveComponent m testLibs defaultOptions bareSrc ''/src'' [] \<noteq> Resolved x)"
proof -
  let ?tmpl = "\<lparr> type = ''template'', attrs = [(''extends'', Str ''./Root.vue'')], content = bareContent \<rparr>"
  let ?rtmpl = "\<lparr> type = ''template'', attrs = [], content = rootContent \<rparr>"
  have ext: "baseOf testLibs defaultOptions [] bareSrc ''/src''
               = Some (bareDesc, ?tmpl, ''/src/Root.vue'', rootSrc)"
    by code_simp
  have base: "resolveComponent (Suc 0) testLibs defaultOptions rootSrc
                (pathDirname testLibs ''/src/Root.vue'') []
              = Resolved \<lparr> source = rootSrc, ancestorsPaths = [] \<rparr>"
    by code_simp
  have bdom: "templateDom testLibs (source \<lparr> source = rootSrc, ancestorsPaths = [] \<rparr>)
                = Some (rootDesc, ?rtmpl, rootDom)"
    by code_simp
  have top: "parseDOM testLibs (content ?tmpl)
               = [Elem ''tag'' ''div'' [] [Elem ''tag'' ''extensions'' [] []]]"
    by code_simp
  have none: "\<forall>x\<in>set (parseDOM testLibs (content ?tmpl)). \<not> isNamed (EXTENSIONS_TAG defaultOptions) x"
    unfolding top by (simp add: defaultOptions_def)
  show ?thesis
    by (rule missing_container_rejects [OF ext base bdom none])
qed

section \<open>A base file that cannot be read\<close>

lemma readFails_now:
  assumes "baseRef L opts aliases currentSource currPath = Some (currentDesc, currentTemplate, baseAbsPath)"
    and "readFile L baseAbsPath = Inl e"
  shows "resolveComponent (Suc n) L opts currentSource currPath aliases = Rejected (Thrown e)"
  using assms
  by (auto simp: baseRef_def split: sum.splits option.splits attrval.splits prod.splits)

lemma readFails_rejects:
  "readFailsAt k L opts aliases currentSource currPath e \<Longrightarrow>
   resolveComponent (Suc k + m) L opts currentSource currPath aliases = Rejected (Thrown e)"
proof (induction k arbitrary: currentSource currPath)
  case 0
  then obtain currentDesc currentTemplate baseAbsPath where
    "baseRef L opts aliases currentSource currPath = Some (currentDesc, currentTemplate, baseAbsPath)"
    and "readFile L baseAbsPath = Inl e"
    by (auto split: option.splits)
  then have "resolveComponent (Suc m) L opts currentSource currPath aliases = Rejected (Thrown e)"
    by (rule readFails_now)
  then show ?case by simp
next
  case (Suc k)
  from Suc.prems obtain currentDesc currentTemplate baseAbsPath contents where
    ext: "baseOf L opts aliases currentSource currPath
            = Some (currentDesc, currentTemplate, baseAbsPath, contents)"
    and up: "readFailsAt k L opts aliases contents (pathDirname L baseAbsPath) e"
    by (auto split: option.splits)
  from Suc.IH [OF up]
  have "resolveComponent (Suc k + m) L opts contents (pathDirname L baseAbsPath) aliases
          = Rejected (Thrown e)" .
  then show ?case
    using resolveComponent_step [OF ext, of "Suc k + m"] by simp
qed

text \<open>
  C8. When the chain of ancestors reaches a file whose read fails, \<open>k\<close> levels above the
  component's base, the resolution of the component is rejected with the error of that
  read, for every recursion bound that reaches the file, and so is \<^verbatim>\<open>getMergedCode\<close>:
  no merged source is produced and the unreadable file is not taken for a root
  component. Each level applies \<^verbatim>\<open>readFile\<close> once to its base path.
\<close>

theorem read_failure_rejects:
  assumes "readFailsAt k L opts aliases currentSource currPath e"
  shows "resolveComponent (Suc k + m) L opts currentSource currPath aliases = Rejected (Thrown e)
         \<and> getMergedCode (Suc k + m) L opts currentSource currPath aliases = Rejected (Thrown e)"
  using readFails_rejects [OF assms, of m] by (simp add: getMergedCode_def)

theorem read_failure_rejects_witness:
  "resolveComponent (Suc (Suc 0) + 0) testLibs defaultOptions orphanSrc ''/src'' []
     = Rejected (Thrown ''ENOENT /src/Missing.vue'')
   \<and> getMergedCode (Suc (Suc 0) + 0) testLibs defaultOptions orphanSrc ''/src'' []
     = Rejected (Thrown ''ENOENT /src/Missing.vue'')"
proof -
  have chain: "readFailsAt (Suc 0) testLibs defaultOptions [] orphanSrc ''/src''
                 ''ENOENT /src/Missing.vue''"
    by code_simp
  show ?thesis
    by (rule read_failure_rejects [OF chain])
qed

section \<open>The sections outside the template\<close>

text \<open>
  C5. \<open>serial\<close> is the text of a block: its tag with the attributes, its content, the
  closing tag. \<open>sections\<close> is the text of a descriptor's sections outside the template:
  the custom blocks other than extension blocks, the script block (the text
  \<^verbatim>\<open>undefined\<close> when there is none) and the style blocks. For a component that extends a
  base resolved at whatever depth, the source that \<^verbatim>\<open>resolveComponent\<close> returns is the
  template marked extendable, holding the serialised tree of the resolved base's
  template with the component's extension blocks filled in, followed by the sections of
  the component's own descriptor. Of the resolved base only the content of the template
  is read: a base with the same template content and any other sections gives the same
  source. The output of \<^verbatim>\<open>getMergedCode\<close> is the final template followed by the sections
  of the descriptor that the SFC parser reads back from this source, the padding of the
  script removed.
\<close>

theorem non_template_isolation:
  assumes serial: "serial =
      (\<lambda>b. ''<'' @ type b @ '' ''
             @ concat (map (\<lambda>kv. '' '' @ fst kv @ ''='' @ [CHR 0x22] @ showAttrval (snd kv)
                                    @ [CHR 0x22] @ '' '') (attrs b))
             @ ''>'' @ content b @ ''</'' @ type b @ ''>'')"
    and sections: "sections =
      (\<lambda>d. joinWith [CHR 0x0A]
               (map serial (filter (\<lambda>cb. type cb \<noteq> EXTENSION_TAG opts) (customBlocks d)))
             @ (case script d of None \<Rightarrow> ''undefined'' | Some b \<Rightarrow> serial b)
             @ joinWith [CHR 0x0A] (map serial (styles d)))"
    and ext: "baseOf L opts aliases currentSource currPath
                = Some (currentDesc, currentTemplate, baseAbsPath, contents)"
    and base: "resolveComponent n L opts contents (pathDirname L baseAbsPath) aliases = Resolved r"
    and bdom: "templateDom L (source r) = Some (baseDescriptor, baseTemplate, baseDom)"
    and exts: "findExtensions opts (parseDOM L (content currentTemplate)) = Some extensions"
    and merged: "merged =
                        ''<template '' @ EXTENDABLE_ATTR opts @ ''>'' @ [CHR 0x0A] @ replicate 27 CHR '' ''
                        @ getOuterHTML L (map (fillPoints opts extensions) baseDom)
                        @ [CHR 0x0A] @ replicate 25 CHR '' '' @ ''</template> ''
                        @ [CHR 0x0A] @ replicate 25 CHR '' '' @ sections currentDesc"
  shows "resolveComponent (Suc n) L opts currentSource currPath aliases
           = Resolved \<lparr> source = merged, ancestorsPaths = ancestorsPaths r @ [baseAbsPath] \<rparr>
       \<and> (\<forall>(r'::resolved) d' t'.
              toDescriptor L (source r') = Inr d' \<and> template d' = Some t'
              \<and> content t' = content baseTemplate \<and> ancestorsPaths r' = ancestorsPaths r \<longrightarrow>
              mergeWithBase L opts currentDesc currentTemplate baseAbsPath r'
                = Resolved \<lparr> source = merged, ancestorsPaths = ancestorsPaths r @ [baseAbsPath] \<rparr>)
       \<and> (\<forall>parsed t.
              toDescriptor L merged = Inr parsed \<and> template parsed = Some t
              \<and> truthyAttr (map_of (attrs t) (EXTENDABLE_ATTR opts)) \<longrightarrow>
              getMergedCode (Suc n) L opts currentSource currPath aliases
                = Resolved \<lparr> source =
                          ''<template>'' @ [CHR 0x0A] @ replicate 20 CHR '' ''
                          @ getOuterHTML L (map (retagPoints opts) (parseDOM L (content t)))
                          @ [CHR 0x0A] @ replicate 18 CHR '' '' @ ''</template> ''
                          @ [CHR 0x0A] @ replicate 18 CHR '' '' @ sections (stripScript parsed),
                      ancestorsPaths = ancestorsPaths r @ [baseAbsPath] \<rparr>)"
proof -
  have sect: "descriptorToHTML opts d = sections d" for d
    unfolding sections serial by (rule descriptorToHTML_text)
  have res: "resolveComponent (Suc n) L opts currentSource currPath aliases
           = Resolved \<lparr> source = merged, ancestorsPaths = ancestorsPaths r @ [baseAbsPath] \<rparr>"
    using resolveComponent_step [OF ext] base mergeWithBase_resolved [OF bdom exts] merged
    by (simp add: sect)
  have frame: "mergeWithBase L opts currentDesc currentTemplate baseAbsPath r'
                = Resolved \<lparr> source = merged, ancestorsPaths = ancestorsPaths r @ [baseAbsPath] \<rparr>"
    if other: "toDescriptor L (source r') = Inr d'" "template d' = Some t'"
              "content t' = content baseTemplate" "ancestorsPaths r' = ancestorsPaths r"
    for r' :: resolved and d' t'
  proof -
    from templateDom_parts [OF bdom] have "baseDom = parseDOM L (content baseTemplate)"
      by simp
    then have "templateDom L (source r') = Some (d', t', baseDom)"
      using templateDom_of_parts [OF other(1) other(2)] other(3) by simp
    from mergeWithBase_resolved [OF this exts] show ?thesis
      using merged other(4) by (simp add: sect)
  qed
  have final: "getMergedCode (Suc n) L opts currentSource currPath aliases
                = Resolved \<lparr> source =
                          ''<template>'' @ [CHR 0x0A] @ replicate 20 CHR '' ''
                          @ getOuterHTML L (map (retagPoints opts) (parseDOM L (content t)))
                          @ [CHR 0x0A] @ replicate 18 CHR '' '' @ ''</template> ''
                          @ [CHR 0x0A] @ replicate 18 CHR '' '' @ sections (stripScript parsed),
                      ancestorsPaths = ancestorsPaths r @ [baseAbsPath] \<rparr>"
    if again: "toDescriptor L merged = Inr parsed" "template parsed = Some t"
             "truthyAttr (map_of (attrs t) (EXTENDABLE_ATTR opts))"
    for parsed t
  proof -
    let ?r = "\<lparr> source = merged, ancestorsPaths = ancestorsPaths r @ [baseAbsPath] \<rparr>"
    have "templateDom L (source ?r) = Some (parsed, t, parseDOM L (content t))"
      using templateDom_of_parts [OF again(1) again(2)] by simp
    from getMergedCode_final [OF res this again(3)] show ?thesis
      by (simp add: sect)
  qed
  from res frame final show ?thesis by blast
qed

theorem non_template_isolation_witness:
  "resolveComponent (Suc (Suc 0)) testLibs defaultOptions richSrc ''/src'' []
     = Resolved \<lparr> source =
         ''<template extendable>\<newline>                           <div><template>C</template></div>\<newline>                         </template> \<newline>                         <docs >H</docs><script  lang='' @ [CHR 0x22] @ ''ts'' @ [CHR 0x22] @ '' >K</script><style  scoped='' @ [CHR 0x22] @ ''true'' @ [CHR 0x22] @ '' >S1</style>\<newline><style >S2</style>'',
         ancestorsPaths = [''/src/Root.vue''] \<rparr>
   \<and> mergeWithBase testLibs defaultOptions richDesc
        \<lparr> type = ''template'', attrs = [(''extends'', Str ''./Root.vue'')], content = fillContent \<rparr>
        ''/src/Root.vue'' \<lparr> source = rootAltSrc, ancestorsPaths = [] \<rparr>
     = Resolved \<lparr> source =
         ''<template extendable>\<newline>                           <div><template>C</template></div>\<newline>                         </template> \<newline>                         <docs >H</docs><script  lang='' @ [CHR 0x22] @ ''ts'' @ [CHR 0x22] @ '' >K</script><style  scoped='' @ [CHR 0x22] @ ''true'' @ [CHR 0x22] @ '' >S1</style>\<newline><style >S2</style>'',
         ancestorsPaths = [''/src/Root.vue''] \<rparr>
   \<and> getMergedCode (Suc (Suc 0)) testLibs defaultOptions richSrc ''/src'' []
     = Resolved \<lparr> source =
         ''<template>\<newline>                    \<newline><div><template>C</template></div>\<newline>\<newline>                  </template> \<newline>                  <docs >\<newline>\<newline>\<newline>H</docs><script  lang='' @ [CHR 0x22] @ ''ts'' @ [CHR 0x22] @ '' >\<newline>\<newline>\<newline>K</script><style  scoped='' @ [CHR 0x22] @ ''true'' @ [CHR 0x22] @ '' >\<newline>\<newline>\<newline>S1</style>\<newline><style >\<newline>\<newline>\<newline>\<newline>S2</style>'',
         ancestorsPaths = [''/src/Root.vue''] \<rparr>"
proof -
  let ?serial = "
    (\<lambda>b. ''<'' @ type b @ '' ''
           @ concat (map (\<lambda>kv. '' '' @ fst kv @ ''='' @ [CHR 0x22] @ showAttrval (snd kv)
                                  @ [CHR 0x22] @ '' '') (attrs b))
           @ ''>'' @ content b @ ''</'' @ type b @ ''>'')"
  let ?sections = "
    (\<lambda>d. joinWith [CHR 0x0A]
             (map ?serial (filter (\<lambda>cb. type cb \<noteq> EXTENSION_TAG defaultOptions) (customBlocks d)))
           @ (case script d of None \<Rightarrow> ''undefined'' | Some b \<Rightarrow> ?serial b)
           @ joinWith [CHR 0x0A] (map ?serial (styles d)))"
  let ?tmpl = "\<lparr> type = ''template'', attrs = [(''extends'', Str ''./Root.vue'')], content = fillContent \<rparr>"
  let ?rtmpl = "\<lparr> type = ''template'', attrs = [], content = rootContent \<rparr>"
  let ?ftmpl = "\<lparr> type = ''template'', attrs = [(''extendable'', Flag)], content = mergedRichContent \<rparr>"
  let ?block = "Elem ''tag'' ''extension'' [(''point'', ''P'')] [Data ''text'' ''C'']"
  let ?r = "\<lparr> source = rootSrc, ancestorsPaths = [] \<rparr>"
  let ?alt = "\<lparr> source = rootAltSrc, ancestorsPaths = [] \<rparr>"
  let ?merged = "
          ''<template '' @ EXTENDABLE_ATTR defaultOptions @ ''>'' @ [CHR 0x0A] @ replicate 27 CHR '' ''
          @ getOuterHTML testLibs (map (fillPoints defaultOptions [?block]) rootDom)
          @ [CHR 0x0A] @ replicate 25 CHR '' '' @ ''</template> ''
          @ [CHR 0x0A] @ replicate 25 CHR '' '' @ ?sections richDesc"
  have ext: "baseOf testLibs defaultOptions [] richSrc ''/src''
               = Some (richDesc, ?tmpl, ''/src/Root.vue'', rootSrc)"
    by code_simp
  have base: "resolveComponent (Suc 0) testLibs defaultOptions rootSrc
                (pathDirname testLibs ''/src/Root.vue'') [] = Resolved ?r"
    by code_simp
  have bdom: "templateDom testLibs (source ?r) = Some (rootDesc, ?rtmpl, rootDom)"
    by code_simp
  have exts: "findExtensions defaultOptions (parseDOM testLibs (content ?tmpl)) = Some [?block]"
    by code_simp
  have all: "resolveComponent (Suc (Suc 0)) testLibs defaultOptions richSrc ''/src'' []
           = Resolved \<lparr> source = ?merged, ancestorsPaths = ancestorsPaths ?r @ [''/src/Root.vue''] \<rparr>
       \<and> (\<forall>(r'::resolved) d' t'.
              toDescriptor testLibs (source r') = Inr d' \<and> template d' = Some t'
              \<and> content t' = content ?rtmpl \<and> ancestorsPaths r' = ancestorsPaths ?r \<longrightarrow>
              mergeWithBase testLibs defaultOptions richDesc ?tmpl ''/src/Root.vue'' r'
                = Resolved \<lparr> source = ?merged, ancestorsPaths = ancestorsPaths ?r @ [''/src/Root.vue''] \<rparr>)
       \<and> (\<forall>parsed t.
              toDescriptor testLibs ?merged = Inr parsed \<and> template parsed = Some t
              \<and> truthyAttr (map_of (attrs t) (EXTENDABLE_ATTR defaultOptions)) \<longrightarrow>
              getMergedCode (Suc (Suc 0)) testLibs defaultOptions richSrc ''/src'' []
                = Resolved \<lparr> source =
              ''<template>'' @ [CHR 0x0A] @ replicate 20 CHR '' ''
              @ getOuterHTML testLibs (map (retagPoints defaultOptions) (parseDOM testLibs (content t)))
              @ [CHR 0x0A] @ replicate 18 CHR '' '' @ ''</template> ''
              @ [CHR 0x0A] @ replicate 18 CHR '' '' @ ?sections (stripScript parsed),
                      ancestorsPaths = ancestorsPaths ?r @ [''/src/Root.vue''] \<rparr>)"
    by (rule non_template_isolation [OF refl refl ext base bdom exts refl])
  have lit: "?merged =
         ''<template extendable>\<newline>                           <div><template>C</template></div>\<newline>                         </template> \<newline>                         <docs >H</docs><script  lang='' @ [CHR 0x22] @ ''ts'' @ [CHR 0x22] @ '' >K</script><style  scoped='' @ [CHR 0x22] @ ''true'' @ [CHR 0x22] @ '' >S1</style>\<newline><style >S2</style>''"
    by code_simp
  have other: "toDescriptor testLibs (source ?alt) = Inr rootAltDesc
      \<and> template rootAltDesc = Some \<lparr> type = ''template'', attrs = [], content = rootContent \<rparr>
      \<and> content \<lparr> type = ''template'', attrs = [], content = rootContent \<rparr> = content ?rtmpl
      \<and> ancestorsPaths ?alt = ancestorsPaths ?r"
    by code_simp
  have again: "toDescriptor testLibs
         (''<template extendable>\<newline>                           <div><template>C</template></div>\<newline>                         </template> \<newline>                         <docs >H</docs><script  lang='' @ [CHR 0x22] @ ''ts'' @ [CHR 0x22] @ '' >K</script><style  scoped='' @ [CHR 0x22] @ ''true'' @ [CHR 0x22] @ '' >S1</style>\<newline><style >S2</style>'')
        = Inr mergedRichDesc
      \<and> template mergedRichDesc = Some ?ftmpl
      \<and> truthyAttr (map_of (attrs ?ftmpl) (EXTENDABLE_ATTR defaultOptions))"
    by code_simp
  have out: "Resolved \<lparr> source =
          ''<template>'' @ [CHR 0x0A] @ replicate 20 CHR '' ''
          @ getOuterHTML testLibs (map (retagPoints defaultOptions) (parseDOM testLibs (content ?ftmpl)))
          @ [CHR 0x0A] @ replicate 18 CHR '' '' @ ''</template> ''
          @ [CHR 0x0A] @ replicate 18 CHR '' '' @ ?sections (stripScript mergedRichDesc),
          ancestorsPaths = ancestorsPaths ?r @ [''/src/Root.vue''] \<rparr>
      = (Resolved \<lparr> source =
         ''<template>\<newline>                    \<newline><div><template>C</template></div>\<newline>\<newline>                  </template> \<newline>                  <docs >\<newline>\<newline>\<newline>H</docs><script  lang='' @ [CHR 0x22] @ ''ts'' @ [CHR 0x22] @ '' >\<newline>\<newline>\<newline>K</script><style  scoped='' @ [CHR 0x22] @ ''true'' @ [CHR 0x22] @ '' >\<newline>\<newline>\<newline>S1</style>\<newline><style >\<newline>\<newline>\<newline>\<newline>S2</style>'',
         ancestorsPaths = [''/src/Root.vue''] \<rparr> :: (string, resolved) promise)"
    by code_simp
  have anc: "ancestorsPaths ?r @ [''/src/Root.vue''] = [''/src/Root.vue'']"
    by simp
  from all have "resolveComponent (Suc (Suc 0)) testLibs defaultOptions richSrc ''/src'' []
           = Resolved \<lparr> source = ?merged, ancestorsPaths = ancestorsPaths ?r @ [''/src/Root.vue''] \<rparr>"
    by (rule conjunct1)
  then have one: "resolveComponent (Suc (Suc 0)) testLibs defaultOptions richSrc ''/src'' []
     = Resolved \<lparr> source =
         ''<template extendable>\<newline>                           <div><template>C</template></div>\<newline>                         </template> \<newline>                         <docs >H</docs><script  lang='' @ [CHR 0x22] @ ''ts'' @ [CHR 0x22] @ '' >K</script><style  scoped='' @ [CHR 0x22] @ ''true'' @ [CHR 0x22] @ '' >S1</style>\<newline><style >S2</style>'',
         ancestorsPaths = [''/src/Root.vue''] \<rparr>"
    unfolding lit anc .
  from all other have "mergeWithBase testLibs defaultOptions richDesc ?tmpl ''/src/Root.vue'' ?alt
           = Resolved \<lparr> source = ?merged, ancestorsPaths = ancestorsPaths ?r @ [''/src/Root.vue''] \<rparr>"
    by blast
  then have two: "mergeWithBase testLibs defaultOptions richDesc ?tmpl ''/src/Root.vue'' ?alt
     = Resolved \<lparr> source =
         ''<template extendable>\<newline>                           <div><template>C</template></div>\<newline>                         </template> \<newline>                         <docs >H</docs><script  lang='' @ [CHR 0x22] @ ''ts'' @ [CHR 0x22] @ '' >K</script><style  scoped='' @ [CHR 0x22] @ ''true'' @ [CHR 0x22] @ '' >S1</style>\<newline><style >S2</style>'',
         ancestorsPaths = [''/src/Root.vue''] \<rparr>"
    unfolding lit anc .
  from all again [folded lit]
  have "getMergedCode (Suc (Suc 0)) testLibs defaultOptions richSrc ''/src'' []
     = Resolved \<lparr> source =
          ''<template>'' @ [CHR 0x0A] @ replicate 20 CHR '' ''
          @ getOuterHTML testLibs (map (retagPoints defaultOptions) (parseDOM testLibs (content ?ftmpl)))
          @ [CHR 0x0A] @ replicate 18 CHR '' '' @ ''</template> ''
          @ [CHR 0x0A] @ replicate 18 CHR '' '' @ ?sections (stripScript mergedRichDesc),
          ancestorsPaths = ancestorsPaths ?r @ [''/src/Root.vue''] \<rparr>"
    by blast
  then have three: "getMergedCode (Suc (Suc 0)) testLibs defaultOptions richSrc ''/src'' []
     = Resolved \<lparr> source =
         ''<template>\<newline>                    \<newline><div><template>C</template></div>\<newline>\<newline>                  </template> \<newline>                  <docs >\<newline>\<newline>\<newline>H</docs><script  lang='' @ [CHR 0x22] @ ''ts'' @ [CHR 0x22] @ '' >\<newline>\<newline>\<newline>K</script><style  scoped='' @ [CHR 0x22] @ ''true'' @ [CHR 0x22] @ '' >\<newline>\<newline>\<newline>S1</style>\<newline><style >\<newline>\<newline>\<newline>\<newline>S2</style>'',
         ancestorsPaths = [''/src/Root.vue''] \<rparr>"
    unfolding out .
  from one two three show ?thesis by blast
qed

section \<open>The output of the finalizer\<close>

lemma retag_erases:
  "EXT_POINT_TAG opts \<noteq> ''template'' \<Longrightarrow>
   findDomElementsByTagName (map (retagPoints opts) nodes) (EXT_POINT_TAG opts) = []"
  by (simp add: findDomElementsByTagName_def retag_erases_aux)

text \<open>
  C6, amended. When the template of the resolved source carries the extendable
  attribute, and the extension-point tag is not \<^verbatim>\<open>template\<close> itself, the output of
  \<^verbatim>\<open>getMergedCode\<close> is the final template around the serialisation of a tree in which no
  element of the type \<^verbatim>\<open>tag\<close> has the extension-point tag as its name: wherever the
  resolved tree has such an element, the output has a \<^verbatim>\<open>template\<close> element with the same
  attributes except the point-name attribute, its children finalized in the same way.
  Every other element keeps its name and all its attributes, the point-name attribute
  among them: so do the elements of another type that have the extension-point tag as
  their name (the HTML parser gives \<^verbatim>\<open>script\<close> and \<^verbatim>\<open>style\<close> elements a type of their own).
\<close>

theorem extension_points_erased:
  assumes res: "resolveComponent n L opts source0 currPath aliases = Resolved r"
    and fin: "templateDom L (source r) = Some (parsed, t, finalDom)"
    and ext: "truthyAttr (map_of (attrs t) (EXTENDABLE_ATTR opts))"
    and tag: "EXT_POINT_TAG opts \<noteq> ''template''"
  shows "getMergedCode n L opts source0 currPath aliases =
           Resolved \<lparr> source =
                          ''<template>'' @ [CHR 0x0A] @ replicate 20 CHR '' ''
                          @ getOuterHTML L (map (retagPoints opts) finalDom)
                          @ [CHR 0x0A] @ replicate 18 CHR '' '' @ ''</template> ''
                          @ [CHR 0x0A] @ replicate 18 CHR '' '' @ descriptorToHTML opts (stripScript parsed),
                      ancestorsPaths = ancestorsPaths r \<rparr>
         \<and> findDomElementsByTagName (map (retagPoints opts) finalDom) (EXT_POINT_TAG opts) = []
         \<and> (\<forall>c a D. finalDom = plug c (Elem ''tag'' (EXT_POINT_TAG opts) a D) \<longrightarrow>
               map (retagPoints opts) finalDom
                 = plug (retagCtx opts c)
                     (Elem ''tag'' ''template'' (deleteKey (EXT_POINT_NAME_ATTR opts) a)
                        (map (retagPoints opts) D))
               \<and> map_of (deleteKey (EXT_POINT_NAME_ATTR opts) a) (EXT_POINT_NAME_ATTR opts) = None)
         \<and> (\<forall>c t n a D. finalDom = plug c (Elem t n a D)
                 \<and> (t \<noteq> ''tag'' \<or> n \<noteq> EXT_POINT_TAG opts) \<longrightarrow>
               map (retagPoints opts) finalDom
                 = plug (retagCtx opts c) (Elem t n a (map (retagPoints opts) D)))"
proof -
  have out: "getMergedCode n L opts source0 currPath aliases =
           Resolved \<lparr> source =
                          ''<template>'' @ [CHR 0x0A] @ replicate 20 CHR '' ''
                          @ getOuterHTML L (map (retagPoints opts) finalDom)
                          @ [CHR 0x0A] @ replicate 18 CHR '' '' @ ''</template> ''
                          @ [CHR 0x0A] @ replicate 18 CHR '' '' @ descriptorToHTML opts (stripScript parsed),
                      ancestorsPaths = ancestorsPaths r \<rparr>"
    by (rule getMergedCode_final [OF res fin ext])
  have gone: "findDomElementsByTagName (map (retagPoints opts) finalDom) (EXT_POINT_TAG opts) = []"
    by (rule retag_erases [OF tag])
  have place: "map (retagPoints opts) (plug c (Elem ''tag'' (EXT_POINT_TAG opts) a D))
                 = plug (retagCtx opts c)
                     (Elem ''tag'' ''template'' (deleteKey (EXT_POINT_NAME_ATTR opts) a)
                        (map (retagPoints opts) D))" for c a D
    by (simp only: retagPoints_ctx retagPoints_point)
  have other: "map (retagPoints opts) (plug c (Elem t n a D))
                 = plug (retagCtx opts c) (Elem t n a (map (retagPoints opts) D))"
    if "t \<noteq> ''tag'' \<or> n \<noteq> EXT_POINT_TAG opts" for c t n a D
    using that by (auto simp: retagPoints_ctx)
  have points: "\<forall>c a D. finalDom = plug c (Elem ''tag'' (EXT_POINT_TAG opts) a D) \<longrightarrow>
               map (retagPoints opts) finalDom
                 = plug (retagCtx opts c)
                     (Elem ''tag'' ''template'' (deleteKey (EXT_POINT_NAME_ATTR opts) a)
                        (map (retagPoints opts) D))
               \<and> map_of (deleteKey (EXT_POINT_NAME_ATTR opts) a) (EXT_POINT_NAME_ATTR opts) = None"
    using place by (simp add: map_of_deleteKey)
  have others: "\<forall>c t n a D. finalDom = plug c (Elem t n a D)
                 \<and> (t \<noteq> ''tag'' \<or> n \<noteq> EXT_POINT_TAG opts) \<longrightarrow>
               map (retagPoints opts) finalDom
                 = plug (retagCtx opts c) (Elem t n a (map (retagPoints opts) D))"
    using other by blast
  from out gone points others show ?thesis
    by (intro conjI)
qed

theorem extension_points_erased_witness:
  "getMergedCode (Suc (Suc 0)) testLibs defaultOptions midSrc ''/src'' [] =
     Resolved \<lparr> source =
       ''<template>\<newline>                    \<newline><div><template>D</template></div>\<newline>\<newline>                  </template> \<newline>                  <script >M</script>'',
       ancestorsPaths = [''/src/Root.vue''] \<rparr>
   \<and> findDomElementsByTagName (map (retagPoints defaultOptions) mergedMidDom) ''extension-point'' = []
   \<and> map (retagPoints defaultOptions) mergedMidDom
     = [Data ''text'' ''\<newline>'', Elem ''tag'' ''div'' [] [Elem ''tag'' ''template'' [] [Data ''text'' ''D'']], Data ''text'' ''\<newline>'']"
proof -
  let ?ftmpl = "\<lparr> type = ''template'', attrs = [(''extendable'', Flag)], content = mergedMidContent \<rparr>"
  let ?r = "\<lparr> source = mergedMidSrc, ancestorsPaths = [''/src/Root.vue''] \<rparr>"
  let ?c = "Sub [Data ''text'' ''\<newline>''] ''tag'' ''div'' [] (Top [] []) [Data ''text'' ''\<newline>'']"
  let ?a = "[(''name'', ''P'')]"
  let ?D = "[Data ''text'' ''D'']"
  have res: "resolveComponent (Suc (Suc 0)) testLibs defaultOptions midSrc ''/src'' [] = Resolved ?r"
    by code_simp
  have fin: "templateDom testLibs (source ?r) = Some (mergedMidDesc, ?ftmpl, mergedMidDom)"
    by code_simp
  have ext: "truthyAttr (map_of (attrs ?ftmpl) (EXTENDABLE_ATTR defaultOptions))"
    by code_simp
  have tag: "EXT_POINT_TAG defaultOptions \<noteq> ''template''"
    by code_simp
  have point: "mergedMidDom = plug ?c (Elem ''tag'' (EXT_POINT_TAG defaultOptions) ?a ?D)"
    by code_simp
  note all = extension_points_erased [OF res fin ext tag]
  from all have "getMergedCode (Suc (Suc 0)) testLibs defaultOptions midSrc ''/src'' [] =
     Resolved \<lparr> source =
          ''<template>'' @ [CHR 0x0A] @ replicate 20 CHR '' ''
          @ getOuterHTML testLibs (map (retagPoints defaultOptions) mergedMidDom)
          @ [CHR 0x0A] @ replicate 18 CHR '' '' @ ''</template> ''
          @ [CHR 0x0A] @ replicate 18 CHR '' '' @ descriptorToHTML defaultOptions (stripScript mergedMidDesc),
       ancestorsPaths = ancestorsPaths ?r \<rparr>"
    by (rule conjunct1)
  also have "\<dots> = Resolved \<lparr> source =
       ''<template>\<newline>                    \<newline><div><template>D</template></div>\<newline>\<newline>                  </template> \<newline>                  <script >M</script>'',
       ancestorsPaths = [''/src/Root.vue''] \<rparr>"
    by code_simp
  finally have one: "getMergedCode (Suc (Suc 0)) testLibs defaultOptions midSrc ''/src'' [] =
     Resolved \<lparr> source =
       ''<template>\<newline>                    \<newline><div><template>D</template></div>\<newline>\<newline>                  </template> \<newline>                  <script >M</script>'',
       ancestorsPaths = [''/src/Root.vue''] \<rparr>" .
  from all have "findDomElementsByTagName (map (retagPoints defaultOptions) mergedMidDom)
                   (EXT_POINT_TAG defaultOptions) = []"
    by blast
  moreover have "EXT_POINT_TAG defaultOptions = ''extension-point''"
    by code_simp
  ultimately have two: "findDomElementsByTagName (map (retagPoints defaultOptions) mergedMidDom)
                          ''extension-point'' = []"
    by simp
  from all point have "map (retagPoints defaultOptions) mergedMidDom
      = plug (retagCtx defaultOptions ?c)
          (Elem ''tag'' ''template'' (deleteKey (EXT_POINT_NAME_ATTR defaultOptions) ?a)
             (map (retagPoints defaultOptions) ?D))"
    by blast
  also have "\<dots> = [Data ''text'' ''\<newline>'', Elem ''tag'' ''div'' [] [Elem ''tag'' ''template'' [] [Data ''text'' ''D'']], Data ''text'' ''\<newline>'']"
    by code_simp
  finally have three: "map (retagPoints defaultOptions) mergedMidDom
      = [Data ''text'' ''\<newline>'', Elem ''tag'' ''div'' [] [Elem ''tag'' ''template'' [] [Data ''text'' ''D'']], Data ''text'' ''\<newline>'']" .
  from one two three show ?thesis by blast
qed

text \<open>
  The claim as stated, for every component source, fails in three ways. A root component
  whose template is not marked extendable (\<^verbatim>\<open>Root\<close>) is returned as it is, extension point
  and name attribute included. With \<^verbatim>\<open>style\<close> as the extension-point tag, the \<^verbatim>\<open>style\<close>
  element of \<^verbatim>\<open>Marked\<close>, whose type is \<^verbatim>\<open>style\<close>, is not found by the lookup, and the
  output has it with its name attribute; so do the elements that are not extension points
  (the \<^verbatim>\<open>template\<close> element keeps its name attribute). With \<^verbatim>\<open>template\<close> as the
  extension-point tag the output has an element of that name, without the name attribute.
\<close>

theorem extension_points_erased_counterexample:
  "getMergedCode (Suc 0) testLibs defaultOptions rootSrc ''/src'' []
     = Resolved \<lparr> source = rootSrc, ancestorsPaths = [] \<rparr>
   \<and> templateDom testLibs rootSrc
     = Some (rootDesc, \<lparr> type = ''template'', attrs = [], content = rootContent \<rparr>,
             [Elem ''tag'' ''div'' []
                [Elem ''tag'' ''extension-point'' [(''name'', ''P'')] [Data ''text'' ''D'']]])
   \<and> rootSrc = ''<template><div><extension-point name=P>D</extension-point></div></template><script>R</script>''
   \<and> templateDom testLibs markedSrc
     = Some (markedDesc,
             \<lparr> type = ''template'', attrs = [(''extendable'', Flag)], content = markedContent \<rparr>,
             [Elem ''style'' ''style'' [(''name'', ''P'')] [Data ''text'' ''D''],
              Elem ''tag'' ''template'' [(''name'', ''Q'')] [Data ''text'' ''E'']])
   \<and> getMergedCode (Suc 0) testLibs (defaultOptions \<lparr> EXT_POINT_TAG := ''style'' \<rparr>) markedSrc ''/src'' []
     = Resolved \<lparr> source =
         ''<template>\<newline>                    <style name='' @ [CHR 0x22] @ ''P'' @ [CHR 0x22] @ ''>D</style><template name='' @ [CHR 0x22] @ ''Q'' @ [CHR 0x22] @ ''>E</template>\<newline>                  </template> \<newline>                  <script >S</script>'',
         ancestorsPaths = [] \<rparr>
   \<and> getMergedCode (Suc 0) testLibs (defaultOptions \<lparr> EXT_POINT_TAG := ''template'' \<rparr>) markedSrc ''/src'' []
     = Resolved \<lparr> source =
         ''<template>\<newline>                    <style name='' @ [CHR 0x22] @ ''P'' @ [CHR 0x22] @ ''>D</style><template>E</template>\<newline>                  </template> \<newline>                  <script >S</script>'',
         ancestorsPaths = [] \<rparr>"
  by code_simp

section \<open>An extension point left open\<close>

text \<open>
  C2, amended. The tree of the resolved base has an extension point named \<open>P\<close> with the
  children \<open>D\<close>, at a location \<open>c\<close>. The derived component has an extensions container as a
  top-level node, the first top-level node with the container's name; \<open>extensions\<close> are
  its extension blocks. None of them targets \<open>P\<close>, and none matches an extension point
  on the way to \<open>P\<close> (\<open>pathOpen\<close>: \<open>P\<close> may be inside other extension points as long as the
  derived component leaves them open). The merged source, \<open>merged\<close>, is then the template
  marked extendable around the base's tree with the point \<open>P\<close> in its place, followed by
  the derived component's sections. The parsers read \<open>merged\<close> back with a template
  marked extendable and the point in the tree (hypotheses \<open>again\<close> and \<open>marked\<close>). Then
  the output of \<^verbatim>\<open>getMergedCode\<close> has in the place of \<open>P\<close> a \<^verbatim>\<open>template\<close> element without
  the name attribute whose children are those of \<open>P\<close>, the extension points among them
  treated in the same way (filled from the derived component's blocks or left open, then
  renamed); they are exactly \<open>D\<close> when \<open>D\<close> contains no extension point.
\<close>

theorem unfilled_point_fallback:
  assumes ext: "baseOf L opts aliases currentSource currPath
                  = Some (currentDesc, currentTemplate, baseAbsPath, contents)"
    and base: "resolveComponent n L opts contents (pathDirname L baseAbsPath) aliases = Resolved r"
    and bdom: "templateDom L (source r)
                 = Some (baseDescriptor, baseTemplate, plug c (Elem ''tag'' (EXT_POINT_TAG opts) a D))"
    and name: "map_of a (EXT_POINT_NAME_ATTR opts) = Some P"
    and cur: "parseDOM L (content currentTemplate) = pre @ Elem t1 (EXTENSIONS_TAG opts) ca kids # post"
             "\<forall>x\<in>set pre. \<not> isNamed (EXTENSIONS_TAG opts) x"
    and blocks: "extensions = filter (isNamed (EXTENSION_TAG opts)) kids"
    and none: "\<forall>b\<in>set extensions. \<not> targets opts P b"
    and outer: "pathOpen opts extensions c"
    and merged: "merged =
                          ''<template '' @ EXTENDABLE_ATTR opts @ ''>'' @ [CHR 0x0A] @ replicate 27 CHR '' ''
                          @ getOuterHTML L
                              (plug (mapCtx (fillPoints opts extensions) c)
                                 (Elem ''tag'' (EXT_POINT_TAG opts) a (map (fillPoints opts extensions) D)))
                          @ [CHR 0x0A] @ replicate 25 CHR '' '' @ ''</template> ''
                          @ [CHR 0x0A] @ replicate 25 CHR '' '' @ descriptorToHTML opts currentDesc"
    and again: "templateDom L merged
                  = Some (parsed, t,
                          plug c' (Elem ''tag'' (EXT_POINT_TAG opts) a
                                     (map (fillPoints opts extensions) D)))"
    and marked: "truthyAttr (map_of (attrs t) (EXTENDABLE_ATTR opts))"
  shows "getMergedCode (Suc n) L opts currentSource currPath aliases =
           Resolved \<lparr> source =
                          ''<template>'' @ [CHR 0x0A] @ replicate 20 CHR '' ''
                          @ getOuterHTML L
                              (plug (retagCtx opts c')
                                 (Elem ''tag'' ''template'' (deleteKey (EXT_POINT_NAME_ATTR opts) a)
                                    (map (retagPoints opts) (map (fillPoints opts extensions) D))))
                          @ [CHR 0x0A] @ replicate 18 CHR '' '' @ ''</template> ''
                          @ [CHR 0x0A] @ replicate 18 CHR '' '' @ descriptorToHTML opts (stripScript parsed),
                      ancestorsPaths = ancestorsPaths r @ [baseAbsPath] \<rparr>
         \<and> (noPoints opts D \<longrightarrow>
              map (retagPoints opts) (map (fillPoints opts extensions) D) = D)"
proof -
  let ?D = "map (fillPoints opts extensions) D"
  let ?point = "Elem ''tag'' (EXT_POINT_TAG opts) a ?D"
  let ?merged = "\<lparr> source = merged, ancestorsPaths = ancestorsPaths r @ [baseAbsPath] \<rparr>"
  have exts: "findExtensions opts (parseDOM L (content currentTemplate)) = Some extensions"
    unfolding blocks by (rule findExtensions_top [OF cur])
  have res: "resolveComponent (Suc n) L opts currentSource currPath aliases = Resolved ?merged"
    using resolveComponent_step [OF ext] base mergeWithBase_resolved [OF bdom exts]
          merge_open [OF outer name none] merged
    by simp
  have fin: "templateDom L (source ?merged) = Some (parsed, t, plug c' ?point)"
    using again by simp
  have tree: "map (retagPoints opts) (plug c' ?point)
          = plug (retagCtx opts c')
              (Elem ''tag'' ''template'' (deleteKey (EXT_POINT_NAME_ATTR opts) a)
                 (map (retagPoints opts) ?D))"
    by (simp only: retagPoints_ctx retagPoints_point)
  have out: "getMergedCode (Suc n) L opts currentSource currPath aliases =
           Resolved \<lparr> source =
                          ''<template>'' @ [CHR 0x0A] @ replicate 20 CHR '' ''
                          @ getOuterHTML L
                              (plug (retagCtx opts c')
                                 (Elem ''tag'' ''template'' (deleteKey (EXT_POINT_NAME_ATTR opts) a)
                                    (map (retagPoints opts) (map (fillPoints opts extensions) D))))
                          @ [CHR 0x0A] @ replicate 18 CHR '' '' @ ''</template> ''
                          @ [CHR 0x0A] @ replicate 18 CHR '' '' @ descriptorToHTML opts (stripScript parsed),
                      ancestorsPaths = ancestorsPaths r @ [baseAbsPath] \<rparr>"
    using getMergedCode_final [OF res fin marked] tree by simp
  have same: "noPoints opts D \<longrightarrow> map (retagPoints opts) ?D = D"
    by (simp add: fillPoints_noPoints retagPoints_noPoints)
  from out same show ?thesis by (rule conjI)
qed

theorem unfilled_point_fallback_witness:
  "getMergedCode (Suc (Suc 0)) testLibs defaultOptions nestOpenSrc ''/src'' [] =
     Resolved \<lparr> source =
       ''<template>\<newline>                    \<newline><div><template><template>D</template></template></div>\<newline>\<newline>                  </template> \<newline>                  <script >NO</script>'',
       ancestorsPaths = [''/src/Nest.vue''] \<rparr>"
proof -
  let ?tmpl = "\<lparr> type = ''template'', attrs = [(''extends'', Str ''./Nest.vue'')], content = openContent \<rparr>"
  let ?rtmpl = "\<lparr> type = ''template'', attrs = [], content = nestContent \<rparr>"
  let ?ftmpl = "\<lparr> type = ''template'', attrs = [(''extendable'', Flag)], content = mergedNestOpenContent \<rparr>"
  let ?c = "Sub [] ''tag'' ''div'' []
      (Sub [] ''tag'' ''extension-point'' [(''name'', ''Q'')] (Top [] []) []) []"
  let ?c' = "Sub [Data ''text'' ''\<newline>''] ''tag'' ''div'' []
      (Sub [] ''tag'' ''extension-point'' [(''name'', ''Q'')] (Top [] []) [])
      [Data ''text'' ''\<newline>'']"
  let ?a = "[(''name'', ''P'')]"
  let ?D = "[Data ''text'' ''D'']"
  let ?r = "\<lparr> source = nestSrc, ancestorsPaths = [] \<rparr>"
  have ext: "baseOf testLibs defaultOptions [] nestOpenSrc ''/src''
               = Some (nestOpenDesc, ?tmpl, ''/src/Nest.vue'', nestSrc)"
    by code_simp
  have base: "resolveComponent (Suc 0) testLibs defaultOptions nestSrc
                (pathDirname testLibs ''/src/Nest.vue'') [] = Resolved ?r"
    by code_simp
  have bdom: "templateDom testLibs (source ?r)
      = Some (nestDesc, ?rtmpl, plug ?c (Elem ''tag'' (EXT_POINT_TAG defaultOptions) ?a ?D))"
    by code_simp
  have name: "map_of ?a (EXT_POINT_NAME_ATTR defaultOptions) = Some ''P''"
    by code_simp
  have cur: "parseDOM testLibs (content ?tmpl)
      = [] @ Elem ''tag'' (EXTENSIONS_TAG defaultOptions) [] [] # []"
    by code_simp
  have first: "\<forall>x\<in>set []. \<not> isNamed (EXTENSIONS_TAG defaultOptions) x"
    by simp
  have blocks: "[] = filter (isNamed (EXTENSION_TAG defaultOptions)) []"
    by simp
  have none: "\<forall>b\<in>set []. \<not> targets defaultOptions ''P'' b"
    by simp
  have outer: "pathOpen defaultOptions [] ?c"
    by code_simp
  have merged: "mergedNestOpenSrc =
          ''<template '' @ EXTENDABLE_ATTR defaultOptions @ ''>'' @ [CHR 0x0A] @ replicate 27 CHR '' ''
          @ getOuterHTML testLibs
              (plug (mapCtx (fillPoints defaultOptions []) ?c)
                 (Elem ''tag'' (EXT_POINT_TAG defaultOptions) ?a (map (fillPoints defaultOptions []) ?D)))
          @ [CHR 0x0A] @ replicate 25 CHR '' '' @ ''</template> ''
          @ [CHR 0x0A] @ replicate 25 CHR '' '' @ descriptorToHTML defaultOptions nestOpenDesc"
    by code_simp
  have again: "templateDom testLibs mergedNestOpenSrc
      = Some (mergedNestOpenDesc, ?ftmpl,
              plug ?c' (Elem ''tag'' (EXT_POINT_TAG defaultOptions) ?a
                          (map (fillPoints defaultOptions []) ?D)))"
    by code_simp
  have marked: "truthyAttr (map_of (attrs ?ftmpl) (EXTENDABLE_ATTR defaultOptions))"
    by code_simp
  have "getMergedCode (Suc (Suc 0)) testLibs defaultOptions nestOpenSrc ''/src'' [] =
     Resolved \<lparr> source =
          ''<template>'' @ [CHR 0x0A] @ replicate 20 CHR '' ''
          @ getOuterHTML testLibs
              (plug (retagCtx defaultOptions ?c')
                 (Elem ''tag'' ''template'' (deleteKey (EXT_POINT_NAME_ATTR defaultOptions) ?a)
                    (map (retagPoints defaultOptions) (map (fillPoints defaultOptions []) ?D))))
          @ [CHR 0x0A] @ replicate 18 CHR '' '' @ ''</template> ''
          @ [CHR 0x0A] @ replicate 18 CHR '' '' @ descriptorToHTML defaultOptions (stripScript mergedNestOpenDesc),
       ancestorsPaths = ancestorsPaths ?r @ [''/src/Nest.vue''] \<rparr>"
    using unfilled_point_fallback
            [OF ext base bdom name cur first blocks none outer merged again marked]
    by (rule conjunct1)
  also have "\<dots> = Resolved \<lparr> source =
       ''<template>\<newline>                    \<newline><div><template><template>D</template></template></div>\<newline>\<newline>                  </template> \<newline>                  <script >NO</script>'',
       ancestorsPaths = [''/src/Nest.vue''] \<rparr>"
    by code_simp
  finally show ?thesis .
qed

text \<open>
  The claim as stated, for every base that defines \<open>P\<close> and every derived component
  without a block for \<open>P\<close>, fails in three ways. When \<open>P\<close> is part of the default content
  of a point \<^verbatim>\<open>Q\<close> that the derived component fills (\<^verbatim>\<open>NestMid\<close>, which extends \<^verbatim>\<open>Nest\<close>),
  the output has the content \<^verbatim>\<open>E\<close> of the block for \<^verbatim>\<open>Q\<close> where \<^verbatim>\<open>Q\<close> was; neither \<open>P\<close> nor
  its default content \<^verbatim>\<open>D\<close> is in it. When the default content of a point contains a
  point that the derived component fills (\<^verbatim>\<open>NestFill\<close>, which extends \<^verbatim>\<open>Nest\<close>, has no
  block for \<^verbatim>\<open>Q\<close> and fills \<^verbatim>\<open>P\<close>, which is the default content of \<^verbatim>\<open>Q\<close>), the place of
  \<^verbatim>\<open>Q\<close> shows the content \<^verbatim>\<open>C\<close> of that block, not the default content as the base has
  it. When the derived component has no extensions container at the top level (\<^verbatim>\<open>Bare\<close>,
  which extends \<^verbatim>\<open>Root\<close> and has no block at all), the promise is rejected and there is no
  output.
\<close>

theorem unfilled_point_fallback_counterexample:
  "templateDom testLibs nestSrc
     = Some (nestDesc, \<lparr> type = ''template'', attrs = [], content = nestContent \<rparr>,
             [Elem ''tag'' ''div'' []
                [Elem ''tag'' ''extension-point'' [(''name'', ''Q'')]
                   [Elem ''tag'' ''extension-point'' [(''name'', ''P'')] [Data ''text'' ''D'']]]])
   \<and> baseOf testLibs defaultOptions [] nestMidSrc ''/src''
     = Some (nestMidDesc,
             \<lparr> type = ''template'', attrs = [(''extends'', Str ''./Nest.vue'')], content = fillQContent \<rparr>,
             ''/src/Nest.vue'', nestSrc)
   \<and> findExtensions defaultOptions (parseDOM testLibs fillQContent)
     = Some [Elem ''tag'' ''extension'' [(''point'', ''Q'')] [Data ''text'' ''E'']]
   \<and> getMergedCode (Suc (Suc 0)) testLibs defaultOptions nestMidSrc ''/src'' []
     = Resolved \<lparr> source =
         ''<template>\<newline>                    \<newline><div><template>E</template></div>\<newline>\<newline>                  </template> \<newline>                  <script >M</script>'',
         ancestorsPaths = [''/src/Nest.vue''] \<rparr>
   \<and> baseOf testLibs defaultOptions [] nestFillSrc ''/src''
     = Some (nestFillDesc,
             \<lparr> type = ''template'', attrs = [(''extends'', Str ''./Nest.vue'')], content = fillContent \<rparr>,
             ''/src/Nest.vue'', nestSrc)
   \<and> findExtensions defaultOptions (parseDOM testLibs fillContent)
     = Some [Elem ''tag'' ''extension'' [(''point'', ''P'')] [Data ''text'' ''C'']]
   \<and> getMergedCode (Suc (Suc 0)) testLibs defaultOptions nestFillSrc ''/src'' []
     = Resolved \<lparr> source =
         ''<template>\<newline>                    \<newline><div><template><template>C</template></template></div>\<newline>\<newline>                  </template> \<newline>                  <script >F</script>'',
         ancestorsPaths = [''/src/Nest.vue''] \<rparr>
   \<and> baseOf testLibs defaultOptions [] bareSrc ''/src''
     = Some (bareDesc,
             \<lparr> type = ''template'', attrs = [(''extends'', Str ''./Root.vue'')], content = bareContent \<rparr>,
             ''/src/Root.vue'', rootSrc)
   \<and> parseDOM testLibs bareContent
     = [Elem ''tag'' ''div'' [] [Elem ''tag'' ''extensions'' [] []]]
   \<and> getMergedCode (Suc (Suc 0)) testLibs defaultOptions bareSrc ''/src'' []
     = Rejected (TypeError ''Cannot read property children of undefined'')"
  by code_simp

section \<open>A chain of three components\<close>




section \<open>Aliases\<close>








section \<open>An empty reference\<close>

lemma findRegexAlias_fails:
  "(findRegexAlias L ref aliases = Inl e)
     = (\<exists>before k v after. aliases = before @ (k, v) # after
          \<and> (\<forall>kv\<in>set before. regexTest L (fst kv) ref = Inr False)
          \<and> regexTest L k ref = Inl e)"
proof (induction aliases)
  case Nil
  show ?case by simp
next
  case (Cons kv kvs)
  show ?case
  proof (cases "regexTest L (fst kv) ref")
    case (Inl e')
    show ?thesis
    proof
      assume "findRegexAlias L ref (kv # kvs) = Inl e"
      with Inl have "e' = e" by simp
      with Inl have "kv # kvs = [] @ (fst kv, snd kv) # kvs
          \<and> (\<forall>x\<in>set []. regexTest L (fst x) ref = Inr False)
          \<and> regexTest L (fst kv) ref = Inl e"
        by simp
      then show "\<exists>before k v after. kv # kvs = before @ (k, v) # after
          \<and> (\<forall>x\<in>set before. regexTest L (fst x) ref = Inr False)
          \<and> regexTest L k ref = Inl e"
        by blast
    next
      assume "\<exists>before k v after. kv # kvs = before @ (k, v) # after
          \<and> (\<forall>x\<in>set before. regexTest L (fst x) ref = Inr False)
          \<and> regexTest L k ref = Inl e"
      then obtain before k v after where split: "kv # kvs = before @ (k, v) # after"
        and quiet: "\<forall>x\<in>set before. regexTest L (fst x) ref = Inr False"
        and thrown: "regexTest L k ref = Inl e"
        by blast
      show "findRegexAlias L ref (kv # kvs) = Inl e"
      proof (cases before)
        case Nil
        with split have "kv = (k, v)" by simp
        with thrown show ?thesis by simp
      next
        case (Cons b bs)
        with split have "b = kv" by simp
        with quiet Cons have "regexTest L (fst kv) ref = Inr False" by simp
        with Inl show ?thesis by simp
      qed
    qed
  next
    case (Inr found)
    show ?thesis
    proof (cases found)
      case True
      have "\<not> (\<exists>before k v after. kv # kvs = before @ (k, v) # after
          \<and> (\<forall>x\<in>set before. regexTest L (fst x) ref = Inr False)
          \<and> regexTest L k ref = Inl e)"
      proof
        assume "\<exists>before k v after. kv # kvs = before @ (k, v) # after
          \<and> (\<forall>x\<in>set before. regexTest L (fst x) ref = Inr False)
          \<and> regexTest L k ref = Inl e"
        then obtain before k v after where split: "kv # kvs = before @ (k, v) # after"
          and quiet: "\<forall>x\<in>set before. regexTest L (fst x) ref = Inr False"
          and thrown: "regexTest L k ref = Inl e"
          by blast
        show False
        proof (cases before)
          case Nil
          with split have "kv = (k, v)" by simp
          with thrown Inr show False by simp
        next
          case (Cons b bs)
          with split have "b = kv" by simp
          with quiet Cons have "regexTest L (fst kv) ref = Inr False" by simp
          with Inr True show False by simp
        qed
      qed
      moreover have "findRegexAlias L ref (kv # kvs) \<noteq> Inl e"
        using Inr True by simp
      ultimately show ?thesis by simp
    next
      case False
      have step: "findRegexAlias L ref (kv # kvs) = findRegexAlias L ref kvs"
        using Inr False by simp
      have "(\<exists>before k v after. kv # kvs = before @ (k, v) # after
          \<and> (\<forall>x\<in>set before. regexTest L (fst x) ref = Inr False)
          \<and> regexTest L k ref = Inl e)
        = (\<exists>before k v after. kvs = before @ (k, v) # after
          \<and> (\<forall>x\<in>set before. regexTest L (fst x) ref = Inr False)
          \<and> regexTest L k ref = Inl e)"
      proof
        assume "\<exists>before k v after. kv # kvs = before @ (k, v) # after
          \<and> (\<forall>x\<in>set before. regexTest L (fst x) ref = Inr False)
          \<and> regexTest L k ref = Inl e"
        then obtain before k v after where split: "kv # kvs = before @ (k, v) # after"
          and quiet: "\<forall>x\<in>set before. regexTest L (fst x) ref = Inr False"
          and thrown: "regexTest L k ref = Inl e"
          by blast
        show "\<exists>before k v after. kvs = before @ (k, v) # after
          \<and> (\<forall>x\<in>set before. regexTest L (fst x) ref = Inr False)
          \<and> regexTest L k ref = Inl e"
        proof (cases before)
          case Nil
          with split have "kv = (k, v)" by simp
          with thrown Inr show ?thesis by simp
        next
          case (Cons b bs)
          with split have "kvs = bs @ (k, v) # after" by simp
          moreover from quiet Cons have "\<forall>x\<in>set bs. regexTest L (fst x) ref = Inr False"
            by simp
          ultimately show ?thesis using thrown by blast
        qed
      next
        assume "\<exists>before k v after. kvs = before @ (k, v) # after
          \<and> (\<forall>x\<in>set before. regexTest L (fst x) ref = Inr False)
          \<and> regexTest L k ref = Inl e"
        then obtain before k v after where split: "kvs = before @ (k, v) # after"
          and quiet: "\<forall>x\<in>set before. regexTest L (fst x) ref = Inr False"
          and thrown: "regexTest L k ref = Inl e"
          by blast
        have "kv # kvs = (kv # before) @ (k, v) # after"
          using split by simp
        moreover have "\<forall>x\<in>set (kv # before). regexTest L (fst x) ref = Inr False"
          using quiet Inr False by simp
        ultimately show "\<exists>before k v after. kv # kvs = before @ (k, v) # after
          \<and> (\<forall>x\<in>set before. regexTest L (fst x) ref = Inr False)
          \<and> regexTest L k ref = Inl e"
          using thrown by blast
      qed
      with step Cons.IH show ?thesis by simp
    qed
  qed
qed

lemma resolveBasePath_fails:
  "(resolveBasePath L ref currPath aliases = Inl e)
     = (fromJest aliases \<and> findRegexAlias L ref aliases = Inl e)"
  by (auto simp: resolveBasePath_def Let_def split: sum.splits option.splits prod.splits if_splits)

text \<open>
  C9, amended. No error of the kind the claim names exists, and nothing validates the
  reference. The SFC parser stores the value \<^verbatim>\<open>true\<close> for an \<^verbatim>\<open>extends\<close> attribute that is
  empty or has no value; a component with such a template is rejected, by
  \<^verbatim>\<open>resolveComponent\<close> and by \<^verbatim>\<open>getMergedCode\<close>, with the \<^verbatim>\<open>TypeError\<close> of calling \<^verbatim>\<open>split\<close>
  on that value, before any path is computed. Path resolution is a function of the
  reference, the context path and the alias table. It fails only in the pattern mode,
  and only with the error thrown when a key of the table is compiled or tested, all keys
  before it having been tested without a match; in the plain mode it yields a path for
  every reference.
\<close>

theorem empty_reference:
  assumes "toDescriptor L currentSource = Inr currentDesc"
    and "template currentDesc = Some t"
    and "map_of (attrs t) (EXTENDS_ATTR opts) = Some Flag"
  shows "resolveComponent (Suc n) L opts currentSource currPath aliases
           = Rejected (TypeError ''baseRelPath.split is not a function'')
       \<and> getMergedCode (Suc n) L opts currentSource currPath aliases
           = Rejected (TypeError ''baseRelPath.split is not a function'')
       \<and> (\<forall>ref e. (resolveBasePath L ref currPath aliases = Inl e)
                     = (fromJest aliases
                        \<and> (\<exists>before k v after. aliases = before @ (k, v) # after
                              \<and> (\<forall>kv\<in>set before. regexTest L (fst kv) ref = Inr False)
                              \<and> regexTest L k ref = Inl e)))
       \<and> (\<not> fromJest aliases \<longrightarrow>
            (\<forall>ref. \<exists>p. resolveBasePath L ref currPath aliases = Inr p))"
proof -
  have rejected: "resolveComponent (Suc n) L opts currentSource currPath aliases
           = Rejected (TypeError ''baseRelPath.split is not a function'')"
    using assms by (simp add: extendsAttr_def)
  then have final: "getMergedCode (Suc n) L opts currentSource currPath aliases
           = Rejected (TypeError ''baseRelPath.split is not a function'')"
    by (simp add: getMergedCode_def)
  have fails: "(resolveBasePath L ref currPath aliases = Inl e)
                     = (fromJest aliases
                        \<and> (\<exists>before k v after. aliases = before @ (k, v) # after
                              \<and> (\<forall>kv\<in>set before. regexTest L (fst kv) ref = Inr False)
                              \<and> regexTest L k ref = Inl e))" for ref e
    by (simp only: resolveBasePath_fails findRegexAlias_fails)
  have plain: "\<exists>p. resolveBasePath L ref currPath aliases = Inr p" if "\<not> fromJest aliases" for ref
  proof (cases "resolveBasePath L ref currPath aliases")
    case (Inl e)
    with that show ?thesis by (simp add: resolveBasePath_fails)
  next
    case (Inr p)
    then show ?thesis by blast
  qed
  from rejected final fails plain show ?thesis by blast
qed

theorem empty_reference_witness:
  "resolveComponent (Suc 0) testLibs defaultOptions emptySrc ''/src'' []
     = Rejected (TypeError ''baseRelPath.split is not a function'')
   \<and> getMergedCode (Suc 0) testLibs defaultOptions emptySrc ''/src'' []
     = Rejected (TypeError ''baseRelPath.split is not a function'')
   \<and> resolveComponent (Suc 0) testLibs defaultOptions flagSrc ''/src'' []
     = Rejected (TypeError ''baseRelPath.split is not a function'')
   \<and> (\<forall>ref. \<exists>p. resolveBasePath testLibs ref ''/src'' [] = Inr p)
   \<and> resolveBasePath
        (testLibs \<lparr> regexTest := (\<lambda>k s. if k = ''('' then Inl ''Invalid regular expression''
                                        else Inr (containsLit k s)) \<rparr>)
        ''./Root.vue'' ''/src'' [(''__fromJest'', ''true''), (''('', ''/x'')]
     = Inl ''Invalid regular expression''"
proof -
  let ?e = "\<lparr> type = ''template'', attrs = [(''extends'', Flag)], content = openContent \<rparr>"
  let ?broken = "testLibs \<lparr> regexTest := (\<lambda>k s. if k = ''('' then Inl ''Invalid regular expression''
                                                 else Inr (containsLit k s)) \<rparr>"
  let ?jest = "[(''__fromJest'', ''true''), (''('', ''/x'')]"
  have parsed: "toDescriptor testLibs emptySrc = Inr emptyDesc"
               "toDescriptor testLibs flagSrc = Inr flagDesc"
               "toDescriptor ?broken emptySrc = Inr emptyDesc"
    by code_simp+
  have tmpl: "template emptyDesc = Some ?e" "template flagDesc = Some ?e"
    by code_simp+
  have val: "map_of (attrs ?e) (EXTENDS_ATTR defaultOptions) = Some Flag"
    by code_simp
  have mode: "\<not> fromJest []" "fromJest ?jest"
    by code_simp+
  have table: "?jest = [(''__fromJest'', ''true'')] @ (''('', ''/x'') # []"
    by simp
  have quiet: "\<forall>kv\<in>set [(''__fromJest'', ''true'')].
                 regexTest ?broken (fst kv) ''./Root.vue'' = Inr False"
    by code_simp
  have thrown: "regexTest ?broken ''('' ''./Root.vue'' = Inl ''Invalid regular expression''"
    by code_simp
  note empty = empty_reference [OF parsed(1) tmpl(1) val, of 0 "''/src''" "[]"]
  note flag = empty_reference [OF parsed(2) tmpl(2) val, of 0 "''/src''" "[]"]
  note broken = empty_reference [OF parsed(3) tmpl(1) val, of 0 "''/src''" ?jest]
  from empty have one: "resolveComponent (Suc 0) testLibs defaultOptions emptySrc ''/src'' []
     = Rejected (TypeError ''baseRelPath.split is not a function'')"
    by blast
  from empty have two: "getMergedCode (Suc 0) testLibs defaultOptions emptySrc ''/src'' []
     = Rejected (TypeError ''baseRelPath.split is not a function'')"
    by blast
  from flag have three: "resolveComponent (Suc 0) testLibs defaultOptions flagSrc ''/src'' []
     = Rejected (TypeError ''baseRelPath.split is not a function'')"
    by blast
  from empty mode(1) have four: "\<forall>ref. \<exists>p. resolveBasePath testLibs ref ''/src'' [] = Inr p"
    by blast
  from broken have "(resolveBasePath ?broken ''./Root.vue'' ''/src'' ?jest = Inl ''Invalid regular expression'')
      = (fromJest ?jest
         \<and> (\<exists>before k v after. ?jest = before @ (k, v) # after
               \<and> (\<forall>kv\<in>set before. regexTest ?broken (fst kv) ''./Root.vue'' = Inr False)
               \<and> regexTest ?broken k ''./Root.vue'' = Inl ''Invalid regular expression''))"
    by blast
  moreover have "\<exists>before k v after. ?jest = before @ (k, v) # after
               \<and> (\<forall>kv\<in>set before. regexTest ?broken (fst kv) ''./Root.vue'' = Inr False)
               \<and> regexTest ?broken k ''./Root.vue'' = Inl ''Invalid regular expression''"
    using table quiet thrown by blast
  ultimately have five: "resolveBasePath ?broken ''./Root.vue'' ''/src'' ?jest
                           = Inl ''Invalid regular expression''"
    using mode(2) by simp
  from one two three four five show ?thesis by blast
qed

text \<open>
  The claim as stated fails. The template of \<^verbatim>\<open>Empty\<close> has the attribute \<^verbatim>\<open>extends\<close> with
  an empty value, which the SFC parser stores as \<^verbatim>\<open>true\<close>: the rejection is the
  \<^verbatim>\<open>TypeError\<close> of \<^verbatim>\<open>split\<close>, raised before path resolution, not an error of validation.
  Path resolution itself yields a path for the empty reference and for a blank one; the
  component \<^verbatim>\<open>Blank\<close>, whose reference is a blank, is rejected with the error of reading
  the file at that path.
\<close>

theorem empty_reference_counterexample:
  "toDescriptor testLibs emptySrc = Inr (sfc [(''extends'', Flag)] openContent ''S'')
   \<and> resolveComponent (Suc 0) testLibs defaultOptions emptySrc ''/src'' []
     = Rejected (TypeError ''baseRelPath.split is not a function'')
   \<and> resolveBasePath testLibs [] ''/src'' [] = Inr ''/src''
   \<and> resolveBasePath testLibs '' '' ''/src'' [] = Inr ''/src/ ''
   \<and> toDescriptor testLibs blankSrc = Inr (sfc [(''extends'', Str '' '')] openContent ''S'')
   \<and> resolveComponent (Suc (Suc 0)) testLibs defaultOptions blankSrc ''/src'' []
     = Rejected (Thrown ''ENOENT /src/ '')"
  by code_simp

end
